theory Spec2Isabelle
  imports Main "HOL-Library.Word"
begin

unbundle bit_operations_syntax

section \<open>The CH341 compatibility layer over the CH347 driver\<close>

text \<open>
  A shallow embedding of \<^verbatim>\<open>ch341_compat.c\<close>. The file keeps its state in
  static globals (the module handle, the readiness flag, 24 function pointers
  and six per-device arrays of \<^verbatim>\<open>mCH341_MAX_NUMBER\<close> entries); here
  they are the fields of one record that every operation takes and returns.
  The target driver is outside the program: its exports are the fields of a
  record of optional functions over an abstract driver state \<open>'d\<close>, and every
  invocation of a function pointer is appended to a log, so that statements
  about which driver calls an operation makes can be written down.
\<close>

subsection \<open>Windows types and constants\<close>

type_synonym UCHAR = "8 word"
type_synonym USHORT = "16 word"
type_synonym ULONG = "32 word"
type_synonym LONG = "32 word"
type_synonym BOOL = "32 word"
type_synonym HANDLE = "64 word"

text \<open>
  \<^verbatim>\<open>BOOL\<close> is \<^verbatim>\<open>int\<close>: zero is failure, anything else passes \<^verbatim>\<open>if (!x)\<close>.
  \<^verbatim>\<open>LONG\<close> is read as two's complement (\<open>sint\<close>), so \<^verbatim>\<open>-1\<close> is the word
  of all ones. \<^verbatim>\<open>HANDLE\<close> is a pointer, taken at the width of the x64 build
  the README describes.
\<close>

definition FALSE :: BOOL where "FALSE = 0"
definition TRUE :: BOOL where "TRUE = 1"
definition NULL :: HANDLE where "NULL = 0"
definition INVALID_HANDLE_VALUE :: HANDLE where "INVALID_HANDLE_VALUE = - 1"

definition mCH341_MAX_NUMBER :: ULONG where "mCH341_MAX_NUMBER = 16"
definition MAX_DEVICE_PATH_SIZE :: nat where "MAX_DEVICE_PATH_SIZE = 128"
definition IC_VER_CH341A :: ULONG where "IC_VER_CH341A = 0x20"
definition IC_VER_CH341A3 :: ULONG where "IC_VER_CH341A3 = 0x30"

text \<open>
  A pointer argument is \<open>None\<close> when it is \<^verbatim>\<open>NULL\<close> and \<open>Some v\<close> when it
  points to memory that holds \<open>v\<close>; an operation that writes through a pointer
  returns what the pointer holds afterwards.
\<close>

definition poke :: "'a option \<Rightarrow> 'a \<Rightarrow> 'a option" where
  "poke p v = (case p of None \<Rightarrow> None | Some _ \<Rightarrow> Some v)"

text \<open>Bytes written at the start of a buffer replace its first bytes.\<close>

definition overlay :: "UCHAR list \<Rightarrow> UCHAR list \<Rightarrow> UCHAR list" where
  "overlay written mem = written @ drop (length written) mem"

datatype EEPROM_TYPE =
    ID_24C01 | ID_24C02 | ID_24C04 | ID_24C08 | ID_24C16 | ID_24C32 | ID_24C64
  | ID_24C128 | ID_24C256 | ID_24C512 | ID_24C1024 | ID_24C2048 | ID_24C4096

text \<open>
  The two callbacks the layer itself hands to the driver. Only their identity
  enters the model: their bodies, which call every stored routine of the
  caller, run when the driver decides and are not part of any operation here.
\<close>

datatype trampoline = CH347IntWrapper | CH347NotifyWrapper

text \<open>
  The caller's callbacks (\<^verbatim>\<open>mPCH341_INT_ROUTINE\<close>, \<^verbatim>\<open>mPCH341_NOTIFY_ROUTINE\<close>)
  are function pointers that the layer stores and compares with \<^verbatim>\<open>NULL\<close>;
  a non-null one is identified by its address.
\<close>

type_synonym callback = "HANDLE"

subsection \<open>The SPI configuration block\<close>

record SpiCfgS =
  iMode :: UCHAR
  iClock :: UCHAR
  iByteOrder :: UCHAR
  iSpiWriteReadInterval :: USHORT
  iSpiOutDefaultData :: UCHAR
  iChipSelect :: ULONG
  CS1Polarity :: UCHAR
  CS2Polarity :: UCHAR
  iIsAutoDeativeCS :: USHORT
  iActiveDelay :: USHORT
  iDelayDeactive :: ULONG

subsection \<open>The target driver\<close>

text \<open>
  One field per name passed to \<^verbatim>\<open>GetProcAddress\<close>: \<open>None\<close> when the
  library does not export it. A driver function takes the driver's state and
  returns its result, the values it stored through its output pointers, and
  the new state. Three exports are resolved but never called; only their
  presence is recorded.
\<close>

record 'd ch347_dll =
  CH347OpenDevice :: "(ULONG \<Rightarrow> 'd \<Rightarrow> HANDLE \<times> 'd) option"
  CH347CloseDevice :: "(ULONG \<Rightarrow> 'd \<Rightarrow> BOOL \<times> 'd) option"
  CH347GetVersion :: "(ULONG \<Rightarrow> 'd \<Rightarrow> (BOOL \<times> UCHAR \<times> UCHAR \<times> UCHAR \<times> UCHAR) \<times> 'd) option"
  CH347GetChipType :: "(ULONG \<Rightarrow> 'd \<Rightarrow> UCHAR \<times> 'd) option"
  CH347SetTimeout :: "(ULONG \<Rightarrow> ULONG \<Rightarrow> ULONG \<Rightarrow> 'd \<Rightarrow> BOOL \<times> 'd) option"
  CH347GetDeviceInfor :: "unit option"
  CH347SetDeviceNotify ::
    "(ULONG \<Rightarrow> string option \<Rightarrow> trampoline option \<Rightarrow> 'd \<Rightarrow> BOOL \<times> 'd) option"
  CH347ReadData ::
    "(ULONG \<Rightarrow> UCHAR list option \<Rightarrow> ULONG option \<Rightarrow> 'd
      \<Rightarrow> (BOOL \<times> UCHAR list \<times> ULONG) \<times> 'd) option"
  CH347WriteData ::
    "(ULONG \<Rightarrow> UCHAR list option \<Rightarrow> ULONG option \<Rightarrow> 'd \<Rightarrow> (BOOL \<times> ULONG) \<times> 'd) option"
  CH347I2C_Set :: "(ULONG \<Rightarrow> ULONG \<Rightarrow> 'd \<Rightarrow> BOOL \<times> 'd) option"
  CH347I2C_SetDelaymS :: "(ULONG \<Rightarrow> ULONG \<Rightarrow> 'd \<Rightarrow> BOOL \<times> 'd) option"
  CH347StreamI2C ::
    "(ULONG \<Rightarrow> ULONG \<Rightarrow> UCHAR list option \<Rightarrow> ULONG \<Rightarrow> UCHAR list option \<Rightarrow> 'd
      \<Rightarrow> (BOOL \<times> UCHAR list) \<times> 'd) option"
  CH347ReadEEPROM ::
    "(ULONG \<Rightarrow> EEPROM_TYPE \<Rightarrow> ULONG \<Rightarrow> ULONG \<Rightarrow> UCHAR list option \<Rightarrow> 'd
      \<Rightarrow> (BOOL \<times> UCHAR list) \<times> 'd) option"
  CH347WriteEEPROM ::
    "(ULONG \<Rightarrow> EEPROM_TYPE \<Rightarrow> ULONG \<Rightarrow> ULONG \<Rightarrow> UCHAR list option \<Rightarrow> 'd
      \<Rightarrow> BOOL \<times> 'd) option"
  CH347SPI_Init :: "(ULONG \<Rightarrow> SpiCfgS \<Rightarrow> 'd \<Rightarrow> BOOL \<times> 'd) option"
  CH347SPI_SetFrequency :: "unit option"
  CH347SPI_GetCfg :: "unit option"
  CH347SPI_WriteRead ::
    "(ULONG \<Rightarrow> ULONG \<Rightarrow> ULONG \<Rightarrow> UCHAR list option \<Rightarrow> 'd
      \<Rightarrow> (BOOL \<times> UCHAR list) \<times> 'd) option"
  CH347StreamSPI4 ::
    "(ULONG \<Rightarrow> ULONG \<Rightarrow> ULONG \<Rightarrow> UCHAR list option \<Rightarrow> 'd
      \<Rightarrow> (BOOL \<times> UCHAR list) \<times> 'd) option"
  CH347GPIO_Get :: "(ULONG \<Rightarrow> 'd \<Rightarrow> (BOOL \<times> UCHAR \<times> UCHAR) \<times> 'd) option"
  CH347GPIO_Set :: "(ULONG \<Rightarrow> UCHAR \<Rightarrow> UCHAR \<Rightarrow> UCHAR \<Rightarrow> 'd \<Rightarrow> BOOL \<times> 'd) option"
  CH347SetIntRoutine ::
    "(ULONG \<Rightarrow> UCHAR \<Rightarrow> UCHAR \<Rightarrow> UCHAR \<Rightarrow> UCHAR \<Rightarrow> trampoline option \<Rightarrow> 'd
      \<Rightarrow> BOOL \<times> 'd) option"
  CH347ReadInter :: "(ULONG \<Rightarrow> 'd \<Rightarrow> (BOOL \<times> UCHAR list) \<times> 'd) option"
  CH347AbortInter :: "(ULONG \<Rightarrow> 'd \<Rightarrow> BOOL \<times> 'd) option"

text \<open>Every function pointer is \<^verbatim>\<open>NULL\<close> at process start.\<close>

definition no_exports :: "'d ch347_dll" where
  "no_exports = \<lparr>
     CH347OpenDevice = None, CH347CloseDevice = None, CH347GetVersion = None,
     CH347GetChipType = None, CH347SetTimeout = None, CH347GetDeviceInfor = None,
     CH347SetDeviceNotify = None, CH347ReadData = None, CH347WriteData = None,
     CH347I2C_Set = None, CH347I2C_SetDelaymS = None, CH347StreamI2C = None,
     CH347ReadEEPROM = None, CH347WriteEEPROM = None, CH347SPI_Init = None,
     CH347SPI_SetFrequency = None, CH347SPI_GetCfg = None, CH347SPI_WriteRead = None,
     CH347StreamSPI4 = None, CH347GPIO_Get = None, CH347GPIO_Set = None,
     CH347SetIntRoutine = None, CH347ReadInter = None, CH347AbortInter = None \<rparr>"

text \<open>One entry of the log per invocation of a driver function pointer.\<close>

datatype call =
    Call_OpenDevice ULONG
  | Call_CloseDevice ULONG
  | Call_GetVersion ULONG
  | Call_GetChipType ULONG
  | Call_SetTimeout ULONG ULONG ULONG
  | Call_SetDeviceNotify ULONG "string option" "trampoline option"
  | Call_ReadData ULONG "UCHAR list option" "ULONG option"
  | Call_WriteData ULONG "UCHAR list option" "ULONG option"
  | Call_I2C_Set ULONG ULONG
  | Call_I2C_SetDelaymS ULONG ULONG
  | Call_StreamI2C ULONG ULONG "UCHAR list option" ULONG "UCHAR list option"
  | Call_ReadEEPROM ULONG EEPROM_TYPE ULONG ULONG "UCHAR list option"
  | Call_WriteEEPROM ULONG EEPROM_TYPE ULONG ULONG "UCHAR list option"
  | Call_SPI_Init ULONG SpiCfgS
  | Call_SPI_WriteRead ULONG ULONG ULONG "UCHAR list option"
  | Call_StreamSPI4 ULONG ULONG ULONG "UCHAR list option"
  | Call_GPIO_Get ULONG
  | Call_GPIO_Set ULONG UCHAR UCHAR UCHAR
  | Call_SetIntRoutine ULONG UCHAR UCHAR UCHAR UCHAR "trampoline option"
  | Call_ReadInter ULONG
  | Call_AbortInter ULONG

subsection \<open>Global state\<close>

text \<open>
  \<open>LoadLibraryA\<close> is the loader's view of the file system: the export table
  of the library found under a name, if any. \<open>fp\<close> holds the 24
  \<^verbatim>\<open>fp_CH347...\<close> pointers. The arrays have \<^verbatim>\<open>mCH341_MAX_NUMBER\<close> entries in the
  source; here they are functions of the index, and the operations keep the
  source's range checks. The flags are \<^verbatim>\<open>BOOL\<close>s that the source only
  assigns \<^verbatim>\<open>TRUE\<close>, \<^verbatim>\<open>FALSE\<close> or a comparison and only tests for truth.
  \<open>drv\<close> is the driver's own state and \<open>calls\<close> the log of invocations.
\<close>

record 'd shim =
  LoadLibraryA :: "string \<Rightarrow> 'd ch347_dll option"
  g_hCH347DLL :: "'d ch347_dll option"
  g_bInitialized :: bool
  g_DeviceHandles :: "ULONG \<Rightarrow> HANDLE"
  g_DeviceNames :: "ULONG \<Rightarrow> string"
  fp :: "'d ch347_dll"
  g_StreamMode :: "ULONG \<Rightarrow> ULONG"
  g_SPIInitialized :: "ULONG \<Rightarrow> bool"
  g_IntRoutines :: "ULONG \<Rightarrow> callback option"
  g_BufUploadEnabled :: "ULONG \<Rightarrow> bool"
  g_BufDownloadEnabled :: "ULONG \<Rightarrow> bool"
  g_NotifyRoutines :: "ULONG \<Rightarrow> callback option"
  drv :: 'd
  calls :: "call list"

abbreviation fp_CH347OpenDevice where "fp_CH347OpenDevice s \<equiv> CH347OpenDevice (fp s)"
abbreviation fp_CH347CloseDevice where "fp_CH347CloseDevice s \<equiv> CH347CloseDevice (fp s)"
abbreviation fp_CH347GetVersion where "fp_CH347GetVersion s \<equiv> CH347GetVersion (fp s)"
abbreviation fp_CH347GetChipType where "fp_CH347GetChipType s \<equiv> CH347GetChipType (fp s)"
abbreviation fp_CH347SetTimeout where "fp_CH347SetTimeout s \<equiv> CH347SetTimeout (fp s)"
abbreviation fp_CH347SetDeviceNotify where
  "fp_CH347SetDeviceNotify s \<equiv> CH347SetDeviceNotify (fp s)"
abbreviation fp_CH347ReadData where "fp_CH347ReadData s \<equiv> CH347ReadData (fp s)"
abbreviation fp_CH347WriteData where "fp_CH347WriteData s \<equiv> CH347WriteData (fp s)"
abbreviation fp_CH347I2C_Set where "fp_CH347I2C_Set s \<equiv> CH347I2C_Set (fp s)"
abbreviation fp_CH347I2C_SetDelaymS where
  "fp_CH347I2C_SetDelaymS s \<equiv> CH347I2C_SetDelaymS (fp s)"
abbreviation fp_CH347StreamI2C where "fp_CH347StreamI2C s \<equiv> CH347StreamI2C (fp s)"
abbreviation fp_CH347ReadEEPROM where "fp_CH347ReadEEPROM s \<equiv> CH347ReadEEPROM (fp s)"
abbreviation fp_CH347WriteEEPROM where "fp_CH347WriteEEPROM s \<equiv> CH347WriteEEPROM (fp s)"
abbreviation fp_CH347SPI_Init where "fp_CH347SPI_Init s \<equiv> CH347SPI_Init (fp s)"
abbreviation fp_CH347SPI_WriteRead where
  "fp_CH347SPI_WriteRead s \<equiv> CH347SPI_WriteRead (fp s)"
abbreviation fp_CH347StreamSPI4 where "fp_CH347StreamSPI4 s \<equiv> CH347StreamSPI4 (fp s)"
abbreviation fp_CH347GPIO_Get where "fp_CH347GPIO_Get s \<equiv> CH347GPIO_Get (fp s)"
abbreviation fp_CH347GPIO_Set where "fp_CH347GPIO_Set s \<equiv> CH347GPIO_Set (fp s)"
abbreviation fp_CH347SetIntRoutine where
  "fp_CH347SetIntRoutine s \<equiv> CH347SetIntRoutine (fp s)"
abbreviation fp_CH347ReadInter where "fp_CH347ReadInter s \<equiv> CH347ReadInter (fp s)"
abbreviation fp_CH347AbortInter where "fp_CH347AbortInter s \<equiv> CH347AbortInter (fp s)"

text \<open>The state at process start, the statics' initialisers, for a given loader and driver.\<close>

definition initial :: "(string \<Rightarrow> 'd ch347_dll option) \<Rightarrow> 'd \<Rightarrow> 'd shim" where
  "initial loader d = \<lparr>
     LoadLibraryA = loader, g_hCH347DLL = None, g_bInitialized = False,
     g_DeviceHandles = (\<lambda>_. NULL), g_DeviceNames = (\<lambda>_. []), fp = no_exports,
     g_StreamMode = (\<lambda>_. 0), g_SPIInitialized = (\<lambda>_. False),
     g_IntRoutines = (\<lambda>_. None), g_BufUploadEnabled = (\<lambda>_. False),
     g_BufDownloadEnabled = (\<lambda>_. False), g_NotifyRoutines = (\<lambda>_. None),
     drv = d, calls = [] \<rparr>"

text \<open>Recording the invocation of a function pointer and the driver's new state.\<close>

definition invoked :: "call \<Rightarrow> 'd \<Rightarrow> 'd shim \<Rightarrow> 'd shim" where
  "invoked c d s = s\<lparr>drv := d, calls := calls s @ [c]\<rparr>"

subsection \<open>Internal functions\<close>

text \<open>
  \<^verbatim>\<open>LoadCH347DLL\<close>: nothing to do once initialised; otherwise the primary name,
  then the alternate one; the 24 pointers are assigned from the library's
  export table; without both essential exports the library is released and
  the pointers keep what they were assigned.
\<close>

definition LoadCH347DLL :: "'d shim \<Rightarrow> BOOL \<times> 'd shim" where
  "LoadCH347DLL s =
     (if g_bInitialized s then (TRUE, s)
      else
        let s1 = s\<lparr>g_hCH347DLL := LoadLibraryA s ''CH347DLL.DLL''\<rparr>;
            s2 = (case g_hCH347DLL s1 of
                    None \<Rightarrow> s1\<lparr>g_hCH347DLL := LoadLibraryA s1 ''CH347DLLA64.DLL''\<rparr>
                  | Some _ \<Rightarrow> s1)
        in case g_hCH347DLL s2 of
             None \<Rightarrow> (FALSE, s2)
           | Some dll \<Rightarrow>
               let s3 = s2\<lparr>fp := dll\<rparr>
               in if fp_CH347OpenDevice s3 = None \<or> fp_CH347CloseDevice s3 = None
                  then (FALSE, s3\<lparr>g_hCH347DLL := None\<rparr>)
                  else (TRUE, s3\<lparr>g_bInitialized := True\<rparr>))"

text \<open>\<^verbatim>\<open>InitSPIForCH341\<close>: the fixed configuration, with the caller's chip select.\<close>

definition ch341_spi_cfg :: "ULONG \<Rightarrow> SpiCfgS" where
  "ch341_spi_cfg cs = \<lparr>
     iMode = 0, iClock = 1, iByteOrder = 1, iSpiWriteReadInterval = 0,
     iSpiOutDefaultData = 0xFF, iChipSelect = cs, CS1Polarity = 0, CS2Polarity = 0,
     iIsAutoDeativeCS = 1, iActiveDelay = 0, iDelayDeactive = 0 \<rparr>"

definition InitSPIForCH341 :: "ULONG \<Rightarrow> ULONG \<Rightarrow> 'd shim \<Rightarrow> BOOL \<times> 'd shim" where
  "InitSPIForCH341 iIndex cs s =
     (case fp_CH347SPI_Init s of
        None \<Rightarrow> (FALSE, s)
      | Some f \<Rightarrow>
          (case f iIndex (ch341_spi_cfg cs) (drv s) of
             (r, d) \<Rightarrow> (r, invoked (Call_SPI_Init iIndex (ch341_spi_cfg cs)) d s)))"

subsection \<open>Device management\<close>

text \<open>\<^verbatim>\<open>snprintf(..., "CH347_%lu", iIndex)\<close>: the index in decimal.\<close>

function utoa :: "nat \<Rightarrow> string" where
  "utoa n = (if n < 10 then [char_of (48 + n)] else utoa (n div 10) @ [char_of (48 + n mod 10)])"
  by pat_completeness auto
termination
  by (relation "measure id") auto

definition device_name :: "ULONG \<Rightarrow> string" where
  "device_name iIndex = take (MAX_DEVICE_PATH_SIZE - 1) (''CH347_'' @ utoa (unat iIndex))"

definition CH341OpenDevice :: "ULONG \<Rightarrow> 'd shim \<Rightarrow> HANDLE \<times> 'd shim" where
  "CH341OpenDevice iIndex s =
     (case LoadCH347DLL s of (ok, s1) \<Rightarrow>
        if ok = 0 then (INVALID_HANDLE_VALUE, s1)
        else if mCH341_MAX_NUMBER \<le> iIndex then (INVALID_HANDLE_VALUE, s1)
        else (case fp_CH347OpenDevice s1 of
          None \<Rightarrow> (INVALID_HANDLE_VALUE, s1)
        | Some f \<Rightarrow>
            (case f iIndex (drv s1) of (h, d) \<Rightarrow>
               let s2 = invoked (Call_OpenDevice iIndex) d s1
               in if h \<noteq> INVALID_HANDLE_VALUE \<and> h \<noteq> NULL
                  then (h, s2\<lparr>g_DeviceHandles := (g_DeviceHandles s2)(iIndex := h),
                              g_DeviceNames := (g_DeviceNames s2)(iIndex := device_name iIndex)\<rparr>)
                  else (h, s2))))"

text \<open>
  \<^verbatim>\<open>CH341CloseDevice\<close> does not consult the readiness flag, only the pointer.
  After a load that found the library but not both essential exports, the
  pointer still holds what \<^verbatim>\<open>GetProcAddress\<close> returned although the library
  has been released; the call through it is modelled as a call of that export.
\<close>

definition CH341CloseDevice :: "ULONG \<Rightarrow> 'd shim \<Rightarrow> 'd shim" where
  "CH341CloseDevice iIndex s =
     (if mCH341_MAX_NUMBER \<le> iIndex then s
      else (case fp_CH347CloseDevice s of
        None \<Rightarrow> s
      | Some f \<Rightarrow>
          (case f iIndex (drv s) of (r, d) \<Rightarrow>
             let s1 = invoked (Call_CloseDevice iIndex) d s
             in s1\<lparr>g_DeviceHandles := (g_DeviceHandles s1)(iIndex := NULL),
                   g_SPIInitialized := (g_SPIInitialized s1)(iIndex := False)\<rparr>)))"

definition CH341GetVersion :: ULONG where
  "CH341GetVersion = 0x0210"

definition CH341GetDrvVersion :: "'d shim \<Rightarrow> ULONG \<times> 'd shim" where
  "CH341GetDrvVersion s =
     (case LoadCH347DLL s of (ok, s1) \<Rightarrow>
        if ok = 0 then (0, s1)
        else (case fp_CH347GetVersion s1 of
          None \<Rightarrow> (0, s1)
        | Some f \<Rightarrow>
            (case f 0 (drv s1) of ((r, driverVer, dllVer, bcdDevice, chipType), d) \<Rightarrow>
               (if r \<noteq> 0 then ucast driverVer else 0x0350, invoked (Call_GetVersion 0) d s1))))"

definition CH341ResetDevice :: "ULONG \<Rightarrow> 'd shim \<Rightarrow> BOOL \<times> 'd shim" where
  "CH341ResetDevice iIndex s =
     (if mCH341_MAX_NUMBER \<le> iIndex then (FALSE, s)
      else (case CH341OpenDevice iIndex (CH341CloseDevice iIndex s) of (h, s1) \<Rightarrow>
        (if h \<noteq> INVALID_HANDLE_VALUE then TRUE else FALSE, s1)))"

definition device_descr :: "UCHAR list" where
  "device_descr = [18, 0x01, 0x00, 0x02, 0xFF, 0x00, 0x00, 0x40, 0x86, 0x1A,
                   0x55, 0x55, 0x00, 0x03, 0x01, 0x02, 0x00, 0x01]"

definition config_descr :: "UCHAR list" where
  "config_descr = [9, 0x02, 32, 0, 0x01, 0x01, 0x00, 0x80, 250]"

text \<open>The descriptor queries read no global: they return the flag and what the two pointers hold.\<close>

definition CH341GetDeviceDescr ::
  "ULONG \<Rightarrow> UCHAR list option \<Rightarrow> ULONG option \<Rightarrow> BOOL \<times> UCHAR list option \<times> ULONG option" where
  "CH341GetDeviceDescr iIndex oBuffer ioLength =
     (case (oBuffer, ioLength) of
        (Some buf, Some len) \<Rightarrow>
          if len < 18 then (FALSE, oBuffer, ioLength)
          else (TRUE, Some (overlay device_descr buf), Some 18)
      | _ \<Rightarrow> (FALSE, oBuffer, ioLength))"

definition CH341GetConfigDescr ::
  "ULONG \<Rightarrow> UCHAR list option \<Rightarrow> ULONG option \<Rightarrow> BOOL \<times> UCHAR list option \<times> ULONG option" where
  "CH341GetConfigDescr iIndex oBuffer ioLength =
     (case (oBuffer, ioLength) of
        (Some buf, Some len) \<Rightarrow>
          if len < 9 then (FALSE, oBuffer, ioLength)
          else (TRUE, Some (overlay config_descr buf), Some 9)
      | _ \<Rightarrow> (FALSE, oBuffer, ioLength))"

definition CH341GetDeviceName :: "ULONG \<Rightarrow> 'd shim \<Rightarrow> string option" where
  "CH341GetDeviceName iIndex s =
     (if mCH341_MAX_NUMBER \<le> iIndex then None
      else if g_DeviceHandles s iIndex = NULL then None
      else Some (g_DeviceNames s iIndex))"

definition CH341GetVerIC :: "ULONG \<Rightarrow> 'd shim \<Rightarrow> ULONG \<times> 'd shim" where
  "CH341GetVerIC iIndex s =
     (case LoadCH347DLL s of (ok, s1) \<Rightarrow>
        if ok = 0 then (0, s1)
        else (case fp_CH347GetChipType s1 of
          None \<Rightarrow> (IC_VER_CH341A, s1)
        | Some f \<Rightarrow>
            (case f iIndex (drv s1) of (chipType, d) \<Rightarrow>
               (if chipType = 0 then IC_VER_CH341A
                else if chipType = 1 then IC_VER_CH341A3
                else if chipType = 2 then IC_VER_CH341A3
                else if chipType = 3 then IC_VER_CH341A3
                else IC_VER_CH341A,
                invoked (Call_GetChipType iIndex) d s1))))"

definition CH341SetExclusive :: "ULONG \<Rightarrow> ULONG \<Rightarrow> BOOL" where
  "CH341SetExclusive iIndex iExclusive = TRUE"

definition CH341SetTimeout :: "ULONG \<Rightarrow> ULONG \<Rightarrow> ULONG \<Rightarrow> 'd shim \<Rightarrow> BOOL \<times> 'd shim" where
  "CH341SetTimeout iIndex iWriteTimeout iReadTimeout s =
     (case LoadCH347DLL s of (ok, s1) \<Rightarrow>
        if ok = 0 then (FALSE, s1)
        else (case fp_CH347SetTimeout s1 of
          None \<Rightarrow> (FALSE, s1)
        | Some f \<Rightarrow>
            (case f iIndex iWriteTimeout iReadTimeout (drv s1) of (r, d) \<Rightarrow>
               (r, invoked (Call_SetTimeout iIndex iWriteTimeout iReadTimeout) d s1))))"

text \<open>
  \<^verbatim>\<open>CH341FlushBuffer\<close> reads into a local array of 512 bytes that the
  source leaves uninitialised; the model passes zeros.
\<close>

definition CH341FlushBuffer :: "ULONG \<Rightarrow> 'd shim \<Rightarrow> BOOL \<times> 'd shim" where
  "CH341FlushBuffer iIndex s =
     (case LoadCH347DLL s of (ok, s1) \<Rightarrow>
        if ok = 0 then (FALSE, s1)
        else (case fp_CH347ReadData s1 of
          None \<Rightarrow> (TRUE, s1)
        | Some f \<Rightarrow>
            (case f iIndex (Some (replicate 512 0)) (Some 512) (drv s1) of (r, d) \<Rightarrow>
               (TRUE, invoked (Call_ReadData iIndex (Some (replicate 512 0)) (Some 512)) d s1))))"

definition CH341DriverCommand :: "ULONG \<Rightarrow> UCHAR list option \<Rightarrow> ULONG" where
  "CH341DriverCommand iIndex ioCommand = 0"

subsection \<open>I2C\<close>

text \<open>The parameter \<^verbatim>\<open>iMode\<close> is primed: the name is a field of the SPI block.\<close>

definition CH341SetStream :: "ULONG \<Rightarrow> ULONG \<Rightarrow> 'd shim \<Rightarrow> BOOL \<times> 'd shim" where
  "CH341SetStream iIndex iMode' s =
     (case LoadCH347DLL s of (ok, s1) \<Rightarrow>
        if ok = 0 then (FALSE, s1)
        else if mCH341_MAX_NUMBER \<le> iIndex then (FALSE, s1)
        else
          let s2 = s1\<lparr>g_StreamMode := (g_StreamMode s1)(iIndex := iMode')\<rparr>;
              i2cSpeed = iMode' AND 0x03
          in (case fp_CH347I2C_Set s2 of
                Some f \<Rightarrow>
                  (case f iIndex i2cSpeed (drv s2) of (r, d) \<Rightarrow>
                     (r, invoked (Call_I2C_Set iIndex i2cSpeed) d s2))
              | None \<Rightarrow> (TRUE, s2)))"

definition CH341SetDelaymS :: "ULONG \<Rightarrow> ULONG \<Rightarrow> 'd shim \<Rightarrow> BOOL \<times> 'd shim" where
  "CH341SetDelaymS iIndex iDelay s =
     (case LoadCH347DLL s of (ok, s1) \<Rightarrow>
        if ok = 0 then (FALSE, s1)
        else (case fp_CH347I2C_SetDelaymS s1 of
          None \<Rightarrow> (FALSE, s1)
        | Some f \<Rightarrow>
            (case f iIndex iDelay (drv s1) of (r, d) \<Rightarrow>
               (r, invoked (Call_I2C_SetDelaymS iIndex iDelay) d s1))))"

text \<open>
  The streaming call: the driver reports the bytes it stored at the start of
  the read buffer; the caller's buffer, if there is one, then starts with them.
\<close>

definition CH341StreamI2C ::
  "ULONG \<Rightarrow> ULONG \<Rightarrow> UCHAR list option \<Rightarrow> ULONG \<Rightarrow> UCHAR list option \<Rightarrow> 'd shim
    \<Rightarrow> (BOOL \<times> UCHAR list option) \<times> 'd shim" where
  "CH341StreamI2C iIndex iWriteLength iWriteBuffer iReadLength oReadBuffer s =
     (case LoadCH347DLL s of (ok, s1) \<Rightarrow>
        if ok = 0 then ((FALSE, oReadBuffer), s1)
        else (case fp_CH347StreamI2C s1 of
          None \<Rightarrow> ((FALSE, oReadBuffer), s1)
        | Some f \<Rightarrow>
            (case f iIndex iWriteLength iWriteBuffer iReadLength oReadBuffer (drv s1) of
               ((r, written), d) \<Rightarrow>
                 ((r, map_option (overlay written) oReadBuffer),
                  invoked (Call_StreamI2C iIndex iWriteLength iWriteBuffer iReadLength oReadBuffer)
                    d s1))))"

text \<open>
  \<^verbatim>\<open>writeBuf[0] = (iDevice << 1)\<close> stores into an \<^verbatim>\<open>UCHAR\<close>: the shift is
  taken modulo 256, as \<open>push_bit\<close> on an 8-bit word is. The byte that
  \<^verbatim>\<open>oByte\<close> points to is the one-byte read buffer.
\<close>

definition CH341ReadI2C ::
  "ULONG \<Rightarrow> UCHAR \<Rightarrow> UCHAR \<Rightarrow> UCHAR option \<Rightarrow> 'd shim \<Rightarrow> (BOOL \<times> UCHAR option) \<times> 'd shim" where
  "CH341ReadI2C iIndex iDevice iAddr oByte s =
     (case LoadCH347DLL s of (ok, s1) \<Rightarrow>
        if ok = 0 then ((FALSE, oByte), s1)
        else (case fp_CH347StreamI2C s1 of
          None \<Rightarrow> ((FALSE, oByte), s1)
        | Some f \<Rightarrow>
            (case oByte of
               None \<Rightarrow> ((FALSE, oByte), s1)
             | Some b \<Rightarrow>
                 let writeBuf = [push_bit 1 iDevice, iAddr]
                 in case f iIndex 2 (Some writeBuf) 1 (Some [b]) (drv s1) of
                      ((r, written), d) \<Rightarrow>
                        ((r, Some (case written of [] \<Rightarrow> b | x # _ \<Rightarrow> x)),
                         invoked (Call_StreamI2C iIndex 2 (Some writeBuf) 1 (Some [b])) d s1))))"

definition CH341WriteI2C ::
  "ULONG \<Rightarrow> UCHAR \<Rightarrow> UCHAR \<Rightarrow> UCHAR \<Rightarrow> 'd shim \<Rightarrow> BOOL \<times> 'd shim" where
  "CH341WriteI2C iIndex iDevice iAddr iByte s =
     (case LoadCH347DLL s of (ok, s1) \<Rightarrow>
        if ok = 0 then (FALSE, s1)
        else (case fp_CH347StreamI2C s1 of
          None \<Rightarrow> (FALSE, s1)
        | Some f \<Rightarrow>
            (let writeBuf = [push_bit 1 iDevice, iAddr, iByte]
             in case f iIndex 3 (Some writeBuf) 0 None (drv s1) of
                  ((r, written), d) \<Rightarrow>
                    (r, invoked (Call_StreamI2C iIndex 3 (Some writeBuf) 0 None) d s1))))"

subsection \<open>EEPROM\<close>

definition CH341ReadEEPROM ::
  "ULONG \<Rightarrow> EEPROM_TYPE \<Rightarrow> ULONG \<Rightarrow> ULONG \<Rightarrow> UCHAR list option \<Rightarrow> 'd shim
    \<Rightarrow> (BOOL \<times> UCHAR list option) \<times> 'd shim" where
  "CH341ReadEEPROM iIndex iEepromID iAddr iLength oBuffer s =
     (case LoadCH347DLL s of (ok, s1) \<Rightarrow>
        if ok = 0 then ((FALSE, oBuffer), s1)
        else (case fp_CH347ReadEEPROM s1 of
          None \<Rightarrow> ((FALSE, oBuffer), s1)
        | Some f \<Rightarrow>
            (case f iIndex iEepromID iAddr iLength oBuffer (drv s1) of
               ((r, written), d) \<Rightarrow>
                 ((r, map_option (overlay written) oBuffer),
                  invoked (Call_ReadEEPROM iIndex iEepromID iAddr iLength oBuffer) d s1))))"

definition CH341WriteEEPROM ::
  "ULONG \<Rightarrow> EEPROM_TYPE \<Rightarrow> ULONG \<Rightarrow> ULONG \<Rightarrow> UCHAR list option \<Rightarrow> 'd shim
    \<Rightarrow> BOOL \<times> 'd shim" where
  "CH341WriteEEPROM iIndex iEepromID iAddr iLength iBuffer s =
     (case LoadCH347DLL s of (ok, s1) \<Rightarrow>
        if ok = 0 then (FALSE, s1)
        else (case fp_CH347WriteEEPROM s1 of
          None \<Rightarrow> (FALSE, s1)
        | Some f \<Rightarrow>
            (case f iIndex iEepromID iAddr iLength iBuffer (drv s1) of
               (r, d) \<Rightarrow>
                 (r, invoked (Call_WriteEEPROM iIndex iEepromID iAddr iLength iBuffer) d s1))))"

subsection \<open>SPI\<close>

text \<open>
  The second half of \<^verbatim>\<open>CH341StreamSPI4\<close>, after the initialisation block:
  \<^verbatim>\<open>CH347StreamSPI4\<close> if resolved, otherwise \<^verbatim>\<open>CH347SPI_WriteRead\<close>.
\<close>

definition spi_forward ::
  "ULONG \<Rightarrow> ULONG \<Rightarrow> ULONG \<Rightarrow> UCHAR list option \<Rightarrow> 'd shim
    \<Rightarrow> (BOOL \<times> UCHAR list option) \<times> 'd shim" where
  "spi_forward iIndex cs iLength ioBuffer s =
     (case fp_CH347StreamSPI4 s of
        Some f \<Rightarrow>
          (case f iIndex cs iLength ioBuffer (drv s) of ((r, written), d) \<Rightarrow>
             ((r, map_option (overlay written) ioBuffer),
              invoked (Call_StreamSPI4 iIndex cs iLength ioBuffer) d s))
      | None \<Rightarrow>
          (case fp_CH347SPI_WriteRead s of
             Some f \<Rightarrow>
               (case f iIndex cs iLength ioBuffer (drv s) of ((r, written), d) \<Rightarrow>
                  ((r, map_option (overlay written) ioBuffer),
                   invoked (Call_SPI_WriteRead iIndex cs iLength ioBuffer) d s))
           | None \<Rightarrow> ((FALSE, ioBuffer), s)))"

text \<open>The parameter \<^verbatim>\<open>iChipSelect\<close> is written \<open>cs\<close>: the name is a field of the SPI block.\<close>

definition CH341StreamSPI4 ::
  "ULONG \<Rightarrow> ULONG \<Rightarrow> ULONG \<Rightarrow> UCHAR list option \<Rightarrow> 'd shim
    \<Rightarrow> (BOOL \<times> UCHAR list option) \<times> 'd shim" where
  "CH341StreamSPI4 iIndex cs iLength ioBuffer s =
     (case LoadCH347DLL s of (ok, s1) \<Rightarrow>
        if ok = 0 then ((FALSE, ioBuffer), s1)
        else if mCH341_MAX_NUMBER \<le> iIndex then ((FALSE, ioBuffer), s1)
        else if \<not> g_SPIInitialized s1 iIndex
        then (case InitSPIForCH341 iIndex cs s1 of (r, s2) \<Rightarrow>
                if r = 0 then ((FALSE, ioBuffer), s2)
                else spi_forward iIndex cs iLength ioBuffer
                       (s2\<lparr>g_SPIInitialized := (g_SPIInitialized s2)(iIndex := True)\<rparr>))
        else spi_forward iIndex cs iLength ioBuffer s1)"

definition CH341StreamSPI5 ::
  "ULONG \<Rightarrow> ULONG \<Rightarrow> ULONG \<Rightarrow> UCHAR list option \<Rightarrow> UCHAR list option \<Rightarrow> 'd shim
    \<Rightarrow> (BOOL \<times> UCHAR list option) \<times> 'd shim" where
  "CH341StreamSPI5 iIndex cs iLength ioBuffer ioBuffer2 s =
     CH341StreamSPI4 iIndex cs iLength ioBuffer s"

definition CH341BitStreamSPI :: "ULONG \<Rightarrow> ULONG \<Rightarrow> UCHAR list option \<Rightarrow> BOOL" where
  "CH341BitStreamSPI iIndex iLength ioBuffer = FALSE"

definition CH341StreamSPI3 ::
  "ULONG \<Rightarrow> ULONG \<Rightarrow> ULONG \<Rightarrow> UCHAR list option \<Rightarrow> 'd shim
    \<Rightarrow> (BOOL \<times> UCHAR list option) \<times> 'd shim" where
  "CH341StreamSPI3 iIndex cs iLength ioBuffer s =
     CH341StreamSPI4 iIndex cs iLength ioBuffer s"

subsection \<open>GPIO\<close>

definition CH341GetInput ::
  "ULONG \<Rightarrow> ULONG option \<Rightarrow> 'd shim \<Rightarrow> (BOOL \<times> ULONG option) \<times> 'd shim" where
  "CH341GetInput iIndex iStatus s =
     (case LoadCH347DLL s of (ok, s1) \<Rightarrow>
        if ok = 0 then ((FALSE, iStatus), s1)
        else (case fp_CH347GPIO_Get s1 of
          None \<Rightarrow> ((FALSE, iStatus), s1)
        | Some f \<Rightarrow>
            (case iStatus of
               None \<Rightarrow> ((FALSE, iStatus), s1)
             | Some _ \<Rightarrow>
                 (case f iIndex (drv s1) of ((r, dir, data), d) \<Rightarrow>
                    if r = 0 then ((FALSE, iStatus), invoked (Call_GPIO_Get iIndex) d s1)
                    else ((TRUE, Some (ucast data)), invoked (Call_GPIO_Get iIndex) d s1)))))"

definition CH341GetStatus ::
  "ULONG \<Rightarrow> ULONG option \<Rightarrow> 'd shim \<Rightarrow> (BOOL \<times> ULONG option) \<times> 'd shim" where
  "CH341GetStatus iIndex iStatus s = CH341GetInput iIndex iStatus s"

definition CH341SetOutput ::
  "ULONG \<Rightarrow> ULONG \<Rightarrow> ULONG \<Rightarrow> ULONG \<Rightarrow> 'd shim \<Rightarrow> BOOL \<times> 'd shim" where
  "CH341SetOutput iIndex iEnable iSetDirOut iSetDataOut s =
     (case LoadCH347DLL s of (ok, s1) \<Rightarrow>
        if ok = 0 then (FALSE, s1)
        else (case fp_CH347GPIO_Set s1 of
          None \<Rightarrow> (FALSE, s1)
        | Some f \<Rightarrow>
            (let enable = (0xFF :: UCHAR);
                 dataOut = (if iEnable AND 0x04 \<noteq> 0 then ucast (iSetDataOut AND 0xFF) else 0);
                 dirOut = (if iEnable AND 0x08 \<noteq> 0 then ucast (iSetDirOut AND 0xFF) else 0)
             in case f iIndex enable dirOut dataOut (drv s1) of (r, d) \<Rightarrow>
                  (r, invoked (Call_GPIO_Set iIndex enable dirOut dataOut) d s1))))"

definition CH341Set_D5_D0 :: "ULONG \<Rightarrow> ULONG \<Rightarrow> ULONG \<Rightarrow> 'd shim \<Rightarrow> BOOL \<times> 'd shim" where
  "CH341Set_D5_D0 iIndex iSetDirOut iSetDataOut s =
     (case LoadCH347DLL s of (ok, s1) \<Rightarrow>
        if ok = 0 then (FALSE, s1)
        else (case fp_CH347GPIO_Set s1 of
          None \<Rightarrow> (FALSE, s1)
        | Some f \<Rightarrow>
            (let enable = (0x3F :: UCHAR);
                 dirOut = ucast (iSetDirOut AND 0x3F);
                 dataOut = ucast (iSetDataOut AND 0x3F)
             in case f iIndex enable dirOut dataOut (drv s1) of (r, d) \<Rightarrow>
                  (r, invoked (Call_GPIO_Set iIndex enable dirOut dataOut) d s1))))"

subsection \<open>Data transfer\<close>

text \<open>
  The driver reports the bytes it stored at the start of the buffer and the
  length it left in \<^verbatim>\<open>*ioLength\<close>.
\<close>

definition CH341ReadData ::
  "ULONG \<Rightarrow> UCHAR list option \<Rightarrow> ULONG option \<Rightarrow> 'd shim
    \<Rightarrow> (BOOL \<times> UCHAR list option \<times> ULONG option) \<times> 'd shim" where
  "CH341ReadData iIndex oBuffer ioLength s =
     (case LoadCH347DLL s of (ok, s1) \<Rightarrow>
        if ok = 0 then ((FALSE, oBuffer, ioLength), s1)
        else (case fp_CH347ReadData s1 of
          None \<Rightarrow> ((FALSE, oBuffer, ioLength), s1)
        | Some f \<Rightarrow>
            (case f iIndex oBuffer ioLength (drv s1) of ((r, written, len), d) \<Rightarrow>
               ((r, map_option (overlay written) oBuffer, poke ioLength len),
                invoked (Call_ReadData iIndex oBuffer ioLength) d s1))))"

definition CH341WriteData ::
  "ULONG \<Rightarrow> UCHAR list option \<Rightarrow> ULONG option \<Rightarrow> 'd shim
    \<Rightarrow> (BOOL \<times> ULONG option) \<times> 'd shim" where
  "CH341WriteData iIndex iBuffer ioLength s =
     (case LoadCH347DLL s of (ok, s1) \<Rightarrow>
        if ok = 0 then ((FALSE, ioLength), s1)
        else (case fp_CH347WriteData s1 of
          None \<Rightarrow> ((FALSE, ioLength), s1)
        | Some f \<Rightarrow>
            (case f iIndex iBuffer ioLength (drv s1) of ((r, len), d) \<Rightarrow>
               ((r, poke ioLength len), invoked (Call_WriteData iIndex iBuffer ioLength) d s1))))"

definition CH341ReadData0 ::
  "ULONG \<Rightarrow> UCHAR list option \<Rightarrow> ULONG option \<Rightarrow> 'd shim
    \<Rightarrow> (BOOL \<times> UCHAR list option \<times> ULONG option) \<times> 'd shim" where
  "CH341ReadData0 iIndex oBuffer ioLength s = CH341ReadData iIndex oBuffer ioLength s"

definition CH341ReadData1 ::
  "ULONG \<Rightarrow> UCHAR list option \<Rightarrow> ULONG option \<Rightarrow> 'd shim
    \<Rightarrow> (BOOL \<times> UCHAR list option \<times> ULONG option) \<times> 'd shim" where
  "CH341ReadData1 iIndex oBuffer ioLength s = CH341ReadData iIndex oBuffer ioLength s"

definition CH341WriteData0 ::
  "ULONG \<Rightarrow> UCHAR list option \<Rightarrow> ULONG option \<Rightarrow> 'd shim
    \<Rightarrow> (BOOL \<times> ULONG option) \<times> 'd shim" where
  "CH341WriteData0 iIndex iBuffer ioLength s = CH341WriteData iIndex iBuffer ioLength s"

definition CH341WriteData1 ::
  "ULONG \<Rightarrow> UCHAR list option \<Rightarrow> ULONG option \<Rightarrow> 'd shim
    \<Rightarrow> (BOOL \<times> ULONG option) \<times> 'd shim" where
  "CH341WriteData1 iIndex iBuffer ioLength s = CH341WriteData iIndex iBuffer ioLength s"

text \<open>
  The read loop of \<^verbatim>\<open>CH341WriteRead\<close>. The first argument counts the
  iterations that remain (\<^verbatim>\<open>iReadTimes - i\<close>); \<open>off\<close> is how far \<^verbatim>\<open>pBuf\<close>
  has advanced into the caller's buffer \<open>mem\<close>, \<open>totalRead\<close> is a
  32-bit sum. Each iteration asks for \<^verbatim>\<open>iReadStep\<close> bytes; the driver's
  bytes land at \<^verbatim>\<open>pBuf\<close> whether or not it reports success; a failure leaves
  the loop.
\<close>

fun read_loop ::
  "nat \<Rightarrow> (ULONG \<Rightarrow> UCHAR list option \<Rightarrow> ULONG option \<Rightarrow> 'd \<Rightarrow> (BOOL \<times> UCHAR list \<times> ULONG) \<times> 'd)
    \<Rightarrow> ULONG \<Rightarrow> ULONG \<Rightarrow> nat \<Rightarrow> ULONG \<Rightarrow> UCHAR list \<Rightarrow> 'd shim
    \<Rightarrow> (ULONG \<times> UCHAR list) \<times> 'd shim" where
  "read_loop 0 f iIndex iReadStep off totalRead mem s = ((totalRead, mem), s)"
| "read_loop (Suc n) f iIndex iReadStep off totalRead mem s =
     (case f iIndex (Some (drop off mem)) (Some iReadStep) (drv s) of
        ((r, written, readLen), d) \<Rightarrow>
          let s1 = invoked (Call_ReadData iIndex (Some (drop off mem)) (Some iReadStep)) d s;
              mem1 = take off mem @ overlay written (drop off mem)
          in if r = 0 then ((totalRead, mem1), s1)
             else read_loop n f iIndex iReadStep (off + unat readLen) (totalRead + readLen) mem1 s1)"

definition CH341WriteRead ::
  "ULONG \<Rightarrow> ULONG \<Rightarrow> UCHAR list option \<Rightarrow> ULONG \<Rightarrow> ULONG \<Rightarrow> ULONG option
    \<Rightarrow> UCHAR list option \<Rightarrow> 'd shim
    \<Rightarrow> (BOOL \<times> ULONG option \<times> UCHAR list option) \<times> 'd shim" where
  "CH341WriteRead iIndex iWriteLength iWriteBuffer iReadStep iReadTimes oReadLength oReadBuffer s =
     (case LoadCH347DLL s of (ok, s1) \<Rightarrow>
        if ok = 0 then ((FALSE, oReadLength, oReadBuffer), s1)
        else (case (fp_CH347WriteData s1, fp_CH347ReadData s1) of
          (Some fw, Some fr) \<Rightarrow>
            (case (if 0 < iWriteLength
                   then (case fw iIndex iWriteBuffer (Some iWriteLength) (drv s1) of
                           ((r, writeLen), d) \<Rightarrow>
                             (r, invoked (Call_WriteData iIndex iWriteBuffer (Some iWriteLength)) d s1))
                   else (TRUE, s1)) of
               (w, s2) \<Rightarrow>
                 if w = 0 then ((FALSE, oReadLength, oReadBuffer), s2)
                 else (case (oReadLength, oReadBuffer) of
                         (Some _, Some mem) \<Rightarrow>
                           if 0 < iReadStep \<and> 0 < iReadTimes
                           then (case read_loop (unat iReadTimes) fr iIndex iReadStep 0 0 mem s2 of
                                   ((totalRead, mem1), s3) \<Rightarrow>
                                     ((TRUE, Some totalRead, Some mem1), s3))
                           else ((TRUE, oReadLength, oReadBuffer), s2)
                       | _ \<Rightarrow> ((TRUE, oReadLength, oReadBuffer), s2)))
        | _ \<Rightarrow> ((FALSE, oReadLength, oReadBuffer), s1)))"

subsection \<open>Parallel port\<close>

text \<open>The target has no parallel port: every one of these returns \<^verbatim>\<open>FALSE\<close>.\<close>

definition CH341SetParaMode :: "ULONG \<Rightarrow> ULONG \<Rightarrow> BOOL" where
  "CH341SetParaMode iIndex iMode' = FALSE"

definition CH341InitParallel :: "ULONG \<Rightarrow> ULONG \<Rightarrow> BOOL" where
  "CH341InitParallel iIndex iMode' = FALSE"

definition CH341EppReadData :: "ULONG \<Rightarrow> UCHAR list option \<Rightarrow> ULONG option \<Rightarrow> BOOL" where
  "CH341EppReadData iIndex oBuffer ioLength = FALSE"

definition CH341EppReadAddr :: "ULONG \<Rightarrow> UCHAR list option \<Rightarrow> ULONG option \<Rightarrow> BOOL" where
  "CH341EppReadAddr iIndex oBuffer ioLength = FALSE"

definition CH341EppWriteData :: "ULONG \<Rightarrow> UCHAR list option \<Rightarrow> ULONG option \<Rightarrow> BOOL" where
  "CH341EppWriteData iIndex iBuffer ioLength = FALSE"

definition CH341EppWriteAddr :: "ULONG \<Rightarrow> UCHAR list option \<Rightarrow> ULONG option \<Rightarrow> BOOL" where
  "CH341EppWriteAddr iIndex iBuffer ioLength = FALSE"

definition CH341EppSetAddr :: "ULONG \<Rightarrow> UCHAR \<Rightarrow> BOOL" where
  "CH341EppSetAddr iIndex iAddr = FALSE"

definition CH341MemReadAddr0 :: "ULONG \<Rightarrow> UCHAR list option \<Rightarrow> ULONG option \<Rightarrow> BOOL" where
  "CH341MemReadAddr0 iIndex oBuffer ioLength = FALSE"

definition CH341MemReadAddr1 :: "ULONG \<Rightarrow> UCHAR list option \<Rightarrow> ULONG option \<Rightarrow> BOOL" where
  "CH341MemReadAddr1 iIndex oBuffer ioLength = FALSE"

definition CH341MemWriteAddr0 :: "ULONG \<Rightarrow> UCHAR list option \<Rightarrow> ULONG option \<Rightarrow> BOOL" where
  "CH341MemWriteAddr0 iIndex iBuffer ioLength = FALSE"

definition CH341MemWriteAddr1 :: "ULONG \<Rightarrow> UCHAR list option \<Rightarrow> ULONG option \<Rightarrow> BOOL" where
  "CH341MemWriteAddr1 iIndex iBuffer ioLength = FALSE"

subsection \<open>Interrupts\<close>

text \<open>
  \<^verbatim>\<open>CH341SetIntRoutine\<close> checks the index, then the binding, then stores the
  routine, and only then looks at the driver's entry point.
\<close>

definition CH341SetIntRoutine :: "ULONG \<Rightarrow> callback option \<Rightarrow> 'd shim \<Rightarrow> BOOL \<times> 'd shim" where
  "CH341SetIntRoutine iIndex iIntRoutine s =
     (if mCH341_MAX_NUMBER \<le> iIndex then (FALSE, s)
      else case LoadCH347DLL s of (ok, s1) \<Rightarrow>
        if ok = 0 then (FALSE, s1)
        else
          let s2 = s1\<lparr>g_IntRoutines := (g_IntRoutines s1)(iIndex := iIntRoutine)\<rparr>
          in (case fp_CH347SetIntRoutine s2 of
                None \<Rightarrow> (FALSE, s2)
              | Some f \<Rightarrow>
                  (case iIntRoutine of
                     Some _ \<Rightarrow>
                       (case f iIndex 0 0 255 0 (Some CH347IntWrapper) (drv s2) of (r, d) \<Rightarrow>
                          (r, invoked (Call_SetIntRoutine iIndex 0 0 255 0 (Some CH347IntWrapper)) d s2))
                   | None \<Rightarrow>
                       (case f iIndex 255 0 255 0 None (drv s2) of (r, d) \<Rightarrow>
                          (r, invoked (Call_SetIntRoutine iIndex 255 0 255 0 None) d s2)))))"

text \<open>
  \<^verbatim>\<open>status[8] = {0}\<close>: the driver reports the bytes it stored at the start
  of the array; with none stored, \<^verbatim>\<open>status[0]\<close> is still zero.
\<close>

definition CH341ReadInter ::
  "ULONG \<Rightarrow> ULONG option \<Rightarrow> 'd shim \<Rightarrow> (BOOL \<times> ULONG option) \<times> 'd shim" where
  "CH341ReadInter iIndex iStatus s =
     (case LoadCH347DLL s of (ok, s1) \<Rightarrow>
        if ok = 0 then ((FALSE, iStatus), s1)
        else (case fp_CH347ReadInter s1 of
          None \<Rightarrow> ((FALSE, iStatus), s1)
        | Some f \<Rightarrow>
            (case iStatus of
               None \<Rightarrow> ((FALSE, iStatus), s1)
             | Some _ \<Rightarrow>
                 (case f iIndex (drv s1) of ((r, status), d) \<Rightarrow>
                    if r = 0 then ((FALSE, iStatus), invoked (Call_ReadInter iIndex) d s1)
                    else ((TRUE, Some (ucast (case status of [] \<Rightarrow> (0 :: UCHAR) | b # _ \<Rightarrow> b))),
                          invoked (Call_ReadInter iIndex) d s1)))))"

definition CH341AbortInter :: "ULONG \<Rightarrow> 'd shim \<Rightarrow> BOOL \<times> 'd shim" where
  "CH341AbortInter iIndex s =
     (case LoadCH347DLL s of (ok, s1) \<Rightarrow>
        if ok = 0 then (FALSE, s1)
        else (case fp_CH347AbortInter s1 of
          None \<Rightarrow> (FALSE, s1)
        | Some f \<Rightarrow>
            (case f iIndex (drv s1) of (r, d) \<Rightarrow>
               (r, invoked (Call_AbortInter iIndex) d s1))))"

definition CH341ResetInter :: "ULONG \<Rightarrow> 'd shim \<Rightarrow> BOOL \<times> 'd shim" where
  "CH341ResetInter iIndex s =
     (if mCH341_MAX_NUMBER \<le> iIndex then (FALSE, s)
      else (case CH341AbortInter iIndex s of (_, s1) \<Rightarrow>
        (case g_IntRoutines s1 iIndex of
           Some cb \<Rightarrow> CH341SetIntRoutine iIndex (Some cb) s1
         | None \<Rightarrow> (TRUE, s1))))"

subsection \<open>Abort and reset\<close>

definition CH341AbortRead :: "ULONG \<Rightarrow> BOOL" where
  "CH341AbortRead iIndex = TRUE"

definition CH341AbortWrite :: "ULONG \<Rightarrow> BOOL" where
  "CH341AbortWrite iIndex = TRUE"

definition CH341ResetRead :: "ULONG \<Rightarrow> BOOL" where
  "CH341ResetRead iIndex = CH341AbortRead iIndex"

definition CH341ResetWrite :: "ULONG \<Rightarrow> BOOL" where
  "CH341ResetWrite iIndex = CH341AbortWrite iIndex"

subsection \<open>Buffer upload and download\<close>

definition CH341SetBufUpload :: "ULONG \<Rightarrow> ULONG \<Rightarrow> 'd shim \<Rightarrow> BOOL \<times> 'd shim" where
  "CH341SetBufUpload iIndex iEnableOrClear s =
     (if mCH341_MAX_NUMBER \<le> iIndex then (FALSE, s)
      else (TRUE, s\<lparr>g_BufUploadEnabled := (g_BufUploadEnabled s)(iIndex := (iEnableOrClear \<noteq> 0))\<rparr>))"

definition CH341QueryBufUpload :: "ULONG \<Rightarrow> 'd shim \<Rightarrow> LONG" where
  "CH341QueryBufUpload iIndex s =
     (if mCH341_MAX_NUMBER \<le> iIndex then - 1
      else if \<not> g_BufUploadEnabled s iIndex then - 1
      else 0)"

definition CH341SetBufDownload :: "ULONG \<Rightarrow> ULONG \<Rightarrow> 'd shim \<Rightarrow> BOOL \<times> 'd shim" where
  "CH341SetBufDownload iIndex iEnableOrClear s =
     (if mCH341_MAX_NUMBER \<le> iIndex then (FALSE, s)
      else (TRUE, s\<lparr>g_BufDownloadEnabled := (g_BufDownloadEnabled s)(iIndex := (iEnableOrClear \<noteq> 0))\<rparr>))"

definition CH341QueryBufDownload :: "ULONG \<Rightarrow> 'd shim \<Rightarrow> LONG" where
  "CH341QueryBufDownload iIndex s =
     (if mCH341_MAX_NUMBER \<le> iIndex then - 1
      else if \<not> g_BufDownloadEnabled s iIndex then - 1
      else 0)"

subsection \<open>Device notification\<close>

definition CH341SetDeviceNotify ::
  "ULONG \<Rightarrow> string option \<Rightarrow> callback option \<Rightarrow> 'd shim \<Rightarrow> BOOL \<times> 'd shim" where
  "CH341SetDeviceNotify iIndex iDeviceID iNotifyRoutine s =
     (if mCH341_MAX_NUMBER \<le> iIndex then (FALSE, s)
      else case LoadCH347DLL s of (ok, s1) \<Rightarrow>
        if ok = 0 then (FALSE, s1)
        else
          let s2 = s1\<lparr>g_NotifyRoutines := (g_NotifyRoutines s1)(iIndex := iNotifyRoutine)\<rparr>;
              wrapper = (case iNotifyRoutine of Some _ \<Rightarrow> Some CH347NotifyWrapper | None \<Rightarrow> None)
          in (case fp_CH347SetDeviceNotify s2 of
                None \<Rightarrow> (FALSE, s2)
              | Some f \<Rightarrow>
                  (case f iIndex iDeviceID wrapper (drv s2) of (r, d) \<Rightarrow>
                     (r, invoked (Call_SetDeviceNotify iIndex iDeviceID wrapper) d s2))))"

subsection \<open>Extended functions, serial port, library entry point\<close>

definition CH341OpenDeviceEx :: "ULONG \<Rightarrow> 'd shim \<Rightarrow> HANDLE \<times> 'd shim" where
  "CH341OpenDeviceEx iIndex s = CH341OpenDevice iIndex s"

definition CH341CloseDeviceEx :: "ULONG \<Rightarrow> 'd shim \<Rightarrow> 'd shim" where
  "CH341CloseDeviceEx iIndex s = CH341CloseDevice iIndex s"

definition CH341GetDeviceNameEx :: "ULONG \<Rightarrow> 'd shim \<Rightarrow> string option" where
  "CH341GetDeviceNameEx iIndex s = CH341GetDeviceName iIndex s"

definition CH341SetDeviceNotifyEx ::
  "ULONG \<Rightarrow> string option \<Rightarrow> callback option \<Rightarrow> 'd shim \<Rightarrow> BOOL \<times> 'd shim" where
  "CH341SetDeviceNotifyEx iIndex iDeviceID iNotifyRoutine s =
     CH341SetDeviceNotify iIndex iDeviceID iNotifyRoutine s"

definition CH341SetupSerial :: "ULONG \<Rightarrow> ULONG \<Rightarrow> ULONG \<Rightarrow> BOOL" where
  "CH341SetupSerial iIndex iParityMode iBaudRate = FALSE"

text \<open>
  \<^verbatim>\<open>DllMain\<close>: on \<^verbatim>\<open>DLL_PROCESS_DETACH\<close> (0 in the Windows headers) the
  library is released and the readiness flag cleared; the function pointers
  are left as they are. Any other reason changes nothing.
\<close>

definition DLL_PROCESS_DETACH :: ULONG where "DLL_PROCESS_DETACH = 0"
definition DLL_PROCESS_ATTACH :: ULONG where "DLL_PROCESS_ATTACH = 1"

definition DllMain :: "ULONG \<Rightarrow> 'd shim \<Rightarrow> BOOL \<times> 'd shim" where
  "DllMain fdwReason s =
     (if fdwReason = DLL_PROCESS_DETACH
      then (TRUE, s\<lparr>g_hCH347DLL := None, g_bInitialized := False\<rparr>)
      else (TRUE, s))"

subsection \<open>The exported interface as a whole\<close>

text \<open>
  One constructor per exported function, carrying its arguments, and
  \<^verbatim>\<open>DllMain\<close> with its reason code; grouped by the sections of the source.
\<close>

datatype dev_op =
    Op_OpenDevice ULONG
  | Op_CloseDevice ULONG
  | Op_GetVersion
  | Op_GetDrvVersion
  | Op_ResetDevice ULONG
  | Op_GetDeviceDescr ULONG "UCHAR list option" "ULONG option"
  | Op_GetConfigDescr ULONG "UCHAR list option" "ULONG option"
  | Op_GetDeviceName ULONG
  | Op_GetVerIC ULONG
  | Op_SetExclusive ULONG ULONG
  | Op_SetTimeout ULONG ULONG ULONG
  | Op_FlushBuffer ULONG
  | Op_DriverCommand ULONG "UCHAR list option"

datatype i2c_op =
    Op_SetStream ULONG ULONG
  | Op_SetDelaymS ULONG ULONG
  | Op_StreamI2C ULONG ULONG "UCHAR list option" ULONG "UCHAR list option"
  | Op_ReadI2C ULONG UCHAR UCHAR "UCHAR option"
  | Op_WriteI2C ULONG UCHAR UCHAR UCHAR
  | Op_ReadEEPROM ULONG EEPROM_TYPE ULONG ULONG "UCHAR list option"
  | Op_WriteEEPROM ULONG EEPROM_TYPE ULONG ULONG "UCHAR list option"

datatype spi_op =
    Op_StreamSPI4 ULONG ULONG ULONG "UCHAR list option"
  | Op_StreamSPI5 ULONG ULONG ULONG "UCHAR list option" "UCHAR list option"
  | Op_BitStreamSPI ULONG ULONG "UCHAR list option"
  | Op_StreamSPI3 ULONG ULONG ULONG "UCHAR list option"
  | Op_GetInput ULONG "ULONG option"
  | Op_GetStatus ULONG "ULONG option"
  | Op_SetOutput ULONG ULONG ULONG ULONG
  | Op_Set_D5_D0 ULONG ULONG ULONG

datatype data_op =
    Op_ReadData ULONG "UCHAR list option" "ULONG option"
  | Op_WriteData ULONG "UCHAR list option" "ULONG option"
  | Op_ReadData0 ULONG "UCHAR list option" "ULONG option"
  | Op_ReadData1 ULONG "UCHAR list option" "ULONG option"
  | Op_WriteData0 ULONG "UCHAR list option" "ULONG option"
  | Op_WriteData1 ULONG "UCHAR list option" "ULONG option"
  | Op_WriteRead ULONG ULONG "UCHAR list option" ULONG ULONG "ULONG option" "UCHAR list option"

datatype para_op =
    Op_SetParaMode ULONG ULONG
  | Op_InitParallel ULONG ULONG
  | Op_EppReadData ULONG "UCHAR list option" "ULONG option"
  | Op_EppReadAddr ULONG "UCHAR list option" "ULONG option"
  | Op_EppWriteData ULONG "UCHAR list option" "ULONG option"
  | Op_EppWriteAddr ULONG "UCHAR list option" "ULONG option"
  | Op_EppSetAddr ULONG UCHAR
  | Op_MemReadAddr0 ULONG "UCHAR list option" "ULONG option"
  | Op_MemReadAddr1 ULONG "UCHAR list option" "ULONG option"
  | Op_MemWriteAddr0 ULONG "UCHAR list option" "ULONG option"
  | Op_MemWriteAddr1 ULONG "UCHAR list option" "ULONG option"

datatype int_op =
    Op_SetIntRoutine ULONG "callback option"
  | Op_ReadInter ULONG "ULONG option"
  | Op_AbortInter ULONG
  | Op_ResetInter ULONG
  | Op_AbortRead ULONG
  | Op_AbortWrite ULONG
  | Op_ResetRead ULONG
  | Op_ResetWrite ULONG

datatype misc_op =
    Op_SetBufUpload ULONG ULONG
  | Op_QueryBufUpload ULONG
  | Op_SetBufDownload ULONG ULONG
  | Op_QueryBufDownload ULONG
  | Op_SetDeviceNotify ULONG "string option" "callback option"
  | Op_OpenDeviceEx ULONG
  | Op_CloseDeviceEx ULONG
  | Op_GetDeviceNameEx ULONG
  | Op_SetDeviceNotifyEx ULONG "string option" "callback option"
  | Op_SetupSerial ULONG ULONG ULONG
  | Op_DllMain ULONG

datatype api =
    Device dev_op
  | I2C_EEPROM i2c_op
  | SPI_GPIO spi_op
  | Transfer data_op
  | Parallel para_op
  | Interrupt int_op
  | Other misc_op

text \<open>What a call returns, by the C return type.\<close>

datatype ret =
    R_BOOL BOOL
  | R_HANDLE HANDLE
  | R_VOID
  | R_ULONG ULONG
  | R_LONG LONG
  | R_PVOID "string option"

text \<open>One call of the interface: the return value and the state it leaves.\<close>

definition exec_dev :: "dev_op \<Rightarrow> 'd shim \<Rightarrow> ret \<times> 'd shim" where
  "exec_dev c s =
     (case c of
        Op_OpenDevice i \<Rightarrow> (case CH341OpenDevice i s of (h, s') \<Rightarrow> (R_HANDLE h, s'))
      | Op_CloseDevice i \<Rightarrow> (R_VOID, CH341CloseDevice i s)
      | Op_GetVersion \<Rightarrow> (R_ULONG CH341GetVersion, s)
      | Op_GetDrvVersion \<Rightarrow> (case CH341GetDrvVersion s of (v, s') \<Rightarrow> (R_ULONG v, s'))
      | Op_ResetDevice i \<Rightarrow> (case CH341ResetDevice i s of (r, s') \<Rightarrow> (R_BOOL r, s'))
      | Op_GetDeviceDescr i b l \<Rightarrow> (R_BOOL (fst (CH341GetDeviceDescr i b l)), s)
      | Op_GetConfigDescr i b l \<Rightarrow> (R_BOOL (fst (CH341GetConfigDescr i b l)), s)
      | Op_GetDeviceName i \<Rightarrow> (R_PVOID (CH341GetDeviceName i s), s)
      | Op_GetVerIC i \<Rightarrow> (case CH341GetVerIC i s of (v, s') \<Rightarrow> (R_ULONG v, s'))
      | Op_SetExclusive i e \<Rightarrow> (R_BOOL (CH341SetExclusive i e), s)
      | Op_SetTimeout i w r \<Rightarrow> (case CH341SetTimeout i w r s of (r, s') \<Rightarrow> (R_BOOL r, s'))
      | Op_FlushBuffer i \<Rightarrow> (case CH341FlushBuffer i s of (r, s') \<Rightarrow> (R_BOOL r, s'))
      | Op_DriverCommand i c \<Rightarrow> (R_ULONG (CH341DriverCommand i c), s))"

definition exec_i2c :: "i2c_op \<Rightarrow> 'd shim \<Rightarrow> ret \<times> 'd shim" where
  "exec_i2c c s =
     (case c of
        Op_SetStream i m \<Rightarrow> (case CH341SetStream i m s of (r, s') \<Rightarrow> (R_BOOL r, s'))
      | Op_SetDelaymS i d \<Rightarrow> (case CH341SetDelaymS i d s of (r, s') \<Rightarrow> (R_BOOL r, s'))
      | Op_StreamI2C i wl wb rl rb \<Rightarrow>
          (case CH341StreamI2C i wl wb rl rb s of ((r, _), s') \<Rightarrow> (R_BOOL r, s'))
      | Op_ReadI2C i dv a b \<Rightarrow> (case CH341ReadI2C i dv a b s of ((r, _), s') \<Rightarrow> (R_BOOL r, s'))
      | Op_WriteI2C i dv a b \<Rightarrow> (case CH341WriteI2C i dv a b s of (r, s') \<Rightarrow> (R_BOOL r, s'))
      | Op_ReadEEPROM i e a l b \<Rightarrow>
          (case CH341ReadEEPROM i e a l b s of ((r, _), s') \<Rightarrow> (R_BOOL r, s'))
      | Op_WriteEEPROM i e a l b \<Rightarrow>
          (case CH341WriteEEPROM i e a l b s of (r, s') \<Rightarrow> (R_BOOL r, s')))"

definition exec_spi :: "spi_op \<Rightarrow> 'd shim \<Rightarrow> ret \<times> 'd shim" where
  "exec_spi c s =
     (case c of
        Op_StreamSPI4 i cs l b \<Rightarrow>
          (case CH341StreamSPI4 i cs l b s of ((r, _), s') \<Rightarrow> (R_BOOL r, s'))
      | Op_StreamSPI5 i cs l b b2 \<Rightarrow>
          (case CH341StreamSPI5 i cs l b b2 s of ((r, _), s') \<Rightarrow> (R_BOOL r, s'))
      | Op_BitStreamSPI i l b \<Rightarrow> (R_BOOL (CH341BitStreamSPI i l b), s)
      | Op_StreamSPI3 i cs l b \<Rightarrow>
          (case CH341StreamSPI3 i cs l b s of ((r, _), s') \<Rightarrow> (R_BOOL r, s'))
      | Op_GetInput i st \<Rightarrow> (case CH341GetInput i st s of ((r, _), s') \<Rightarrow> (R_BOOL r, s'))
      | Op_GetStatus i st \<Rightarrow> (case CH341GetStatus i st s of ((r, _), s') \<Rightarrow> (R_BOOL r, s'))
      | Op_SetOutput i e dr dt \<Rightarrow>
          (case CH341SetOutput i e dr dt s of (r, s') \<Rightarrow> (R_BOOL r, s'))
      | Op_Set_D5_D0 i dr dt \<Rightarrow> (case CH341Set_D5_D0 i dr dt s of (r, s') \<Rightarrow> (R_BOOL r, s')))"

definition exec_data :: "data_op \<Rightarrow> 'd shim \<Rightarrow> ret \<times> 'd shim" where
  "exec_data c s =
     (case c of
        Op_ReadData i b l \<Rightarrow> (case CH341ReadData i b l s of ((r, _), s') \<Rightarrow> (R_BOOL r, s'))
      | Op_WriteData i b l \<Rightarrow> (case CH341WriteData i b l s of ((r, _), s') \<Rightarrow> (R_BOOL r, s'))
      | Op_ReadData0 i b l \<Rightarrow> (case CH341ReadData0 i b l s of ((r, _), s') \<Rightarrow> (R_BOOL r, s'))
      | Op_ReadData1 i b l \<Rightarrow> (case CH341ReadData1 i b l s of ((r, _), s') \<Rightarrow> (R_BOOL r, s'))
      | Op_WriteData0 i b l \<Rightarrow> (case CH341WriteData0 i b l s of ((r, _), s') \<Rightarrow> (R_BOOL r, s'))
      | Op_WriteData1 i b l \<Rightarrow> (case CH341WriteData1 i b l s of ((r, _), s') \<Rightarrow> (R_BOOL r, s'))
      | Op_WriteRead i wl wb st tm ol ob \<Rightarrow>
          (case CH341WriteRead i wl wb st tm ol ob s of ((r, _), s') \<Rightarrow> (R_BOOL r, s')))"

definition exec_para :: "para_op \<Rightarrow> 'd shim \<Rightarrow> ret \<times> 'd shim" where
  "exec_para c s =
     (case c of
        Op_SetParaMode i m \<Rightarrow> (R_BOOL (CH341SetParaMode i m), s)
      | Op_InitParallel i m \<Rightarrow> (R_BOOL (CH341InitParallel i m), s)
      | Op_EppReadData i b l \<Rightarrow> (R_BOOL (CH341EppReadData i b l), s)
      | Op_EppReadAddr i b l \<Rightarrow> (R_BOOL (CH341EppReadAddr i b l), s)
      | Op_EppWriteData i b l \<Rightarrow> (R_BOOL (CH341EppWriteData i b l), s)
      | Op_EppWriteAddr i b l \<Rightarrow> (R_BOOL (CH341EppWriteAddr i b l), s)
      | Op_EppSetAddr i a \<Rightarrow> (R_BOOL (CH341EppSetAddr i a), s)
      | Op_MemReadAddr0 i b l \<Rightarrow> (R_BOOL (CH341MemReadAddr0 i b l), s)
      | Op_MemReadAddr1 i b l \<Rightarrow> (R_BOOL (CH341MemReadAddr1 i b l), s)
      | Op_MemWriteAddr0 i b l \<Rightarrow> (R_BOOL (CH341MemWriteAddr0 i b l), s)
      | Op_MemWriteAddr1 i b l \<Rightarrow> (R_BOOL (CH341MemWriteAddr1 i b l), s))"

definition exec_int :: "int_op \<Rightarrow> 'd shim \<Rightarrow> ret \<times> 'd shim" where
  "exec_int c s =
     (case c of
        Op_SetIntRoutine i cb \<Rightarrow> (case CH341SetIntRoutine i cb s of (r, s') \<Rightarrow> (R_BOOL r, s'))
      | Op_ReadInter i st \<Rightarrow> (case CH341ReadInter i st s of ((r, _), s') \<Rightarrow> (R_BOOL r, s'))
      | Op_AbortInter i \<Rightarrow> (case CH341AbortInter i s of (r, s') \<Rightarrow> (R_BOOL r, s'))
      | Op_ResetInter i \<Rightarrow> (case CH341ResetInter i s of (r, s') \<Rightarrow> (R_BOOL r, s'))
      | Op_AbortRead i \<Rightarrow> (R_BOOL (CH341AbortRead i), s)
      | Op_AbortWrite i \<Rightarrow> (R_BOOL (CH341AbortWrite i), s)
      | Op_ResetRead i \<Rightarrow> (R_BOOL (CH341ResetRead i), s)
      | Op_ResetWrite i \<Rightarrow> (R_BOOL (CH341ResetWrite i), s))"

definition exec_misc :: "misc_op \<Rightarrow> 'd shim \<Rightarrow> ret \<times> 'd shim" where
  "exec_misc c s =
     (case c of
        Op_SetBufUpload i e \<Rightarrow> (case CH341SetBufUpload i e s of (r, s') \<Rightarrow> (R_BOOL r, s'))
      | Op_QueryBufUpload i \<Rightarrow> (R_LONG (CH341QueryBufUpload i s), s)
      | Op_SetBufDownload i e \<Rightarrow> (case CH341SetBufDownload i e s of (r, s') \<Rightarrow> (R_BOOL r, s'))
      | Op_QueryBufDownload i \<Rightarrow> (R_LONG (CH341QueryBufDownload i s), s)
      | Op_SetDeviceNotify i dv cb \<Rightarrow>
          (case CH341SetDeviceNotify i dv cb s of (r, s') \<Rightarrow> (R_BOOL r, s'))
      | Op_OpenDeviceEx i \<Rightarrow> (case CH341OpenDeviceEx i s of (h, s') \<Rightarrow> (R_HANDLE h, s'))
      | Op_CloseDeviceEx i \<Rightarrow> (R_VOID, CH341CloseDeviceEx i s)
      | Op_GetDeviceNameEx i \<Rightarrow> (R_PVOID (CH341GetDeviceNameEx i s), s)
      | Op_SetDeviceNotifyEx i dv cb \<Rightarrow>
          (case CH341SetDeviceNotifyEx i dv cb s of (r, s') \<Rightarrow> (R_BOOL r, s'))
      | Op_SetupSerial i p b \<Rightarrow> (R_BOOL (CH341SetupSerial i p b), s)
      | Op_DllMain reason \<Rightarrow> (case DllMain reason s of (r, s') \<Rightarrow> (R_BOOL r, s')))"

definition exec :: "api \<Rightarrow> 'd shim \<Rightarrow> ret \<times> 'd shim" where
  "exec c s =
     (case c of
        Device x \<Rightarrow> exec_dev x s
      | I2C_EEPROM x \<Rightarrow> exec_i2c x s
      | SPI_GPIO x \<Rightarrow> exec_spi x s
      | Transfer x \<Rightarrow> exec_data x s
      | Parallel x \<Rightarrow> exec_para x s
      | Interrupt x \<Rightarrow> exec_int x s
      | Other x \<Rightarrow> exec_misc x s)"

text \<open>A history of calls, applied in order.\<close>

fun run :: "api list \<Rightarrow> 'd shim \<Rightarrow> 'd shim" where
  "run [] s = s"
| "run (c # cs) s = run cs (snd (exec c s))"

text \<open>The \<^verbatim>\<open>iIndex\<close> argument of a call, for the functions that have one.\<close>

fun index_dev :: "dev_op \<Rightarrow> ULONG option" where
  "index_dev (Op_OpenDevice i) = Some i"
| "index_dev (Op_CloseDevice i) = Some i"
| "index_dev Op_GetVersion = None"
| "index_dev Op_GetDrvVersion = None"
| "index_dev (Op_ResetDevice i) = Some i"
| "index_dev (Op_GetDeviceDescr i _ _) = Some i"
| "index_dev (Op_GetConfigDescr i _ _) = Some i"
| "index_dev (Op_GetDeviceName i) = Some i"
| "index_dev (Op_GetVerIC i) = Some i"
| "index_dev (Op_SetExclusive i _) = Some i"
| "index_dev (Op_SetTimeout i _ _) = Some i"
| "index_dev (Op_FlushBuffer i) = Some i"
| "index_dev (Op_DriverCommand i _) = Some i"

fun index_i2c :: "i2c_op \<Rightarrow> ULONG option" where
  "index_i2c (Op_SetStream i _) = Some i"
| "index_i2c (Op_SetDelaymS i _) = Some i"
| "index_i2c (Op_StreamI2C i _ _ _ _) = Some i"
| "index_i2c (Op_ReadI2C i _ _ _) = Some i"
| "index_i2c (Op_WriteI2C i _ _ _) = Some i"
| "index_i2c (Op_ReadEEPROM i _ _ _ _) = Some i"
| "index_i2c (Op_WriteEEPROM i _ _ _ _) = Some i"

fun index_spi :: "spi_op \<Rightarrow> ULONG option" where
  "index_spi (Op_StreamSPI4 i _ _ _) = Some i"
| "index_spi (Op_StreamSPI5 i _ _ _ _) = Some i"
| "index_spi (Op_BitStreamSPI i _ _) = Some i"
| "index_spi (Op_StreamSPI3 i _ _ _) = Some i"
| "index_spi (Op_GetInput i _) = Some i"
| "index_spi (Op_GetStatus i _) = Some i"
| "index_spi (Op_SetOutput i _ _ _) = Some i"
| "index_spi (Op_Set_D5_D0 i _ _) = Some i"

fun index_data :: "data_op \<Rightarrow> ULONG option" where
  "index_data (Op_ReadData i _ _) = Some i"
| "index_data (Op_WriteData i _ _) = Some i"
| "index_data (Op_ReadData0 i _ _) = Some i"
| "index_data (Op_ReadData1 i _ _) = Some i"
| "index_data (Op_WriteData0 i _ _) = Some i"
| "index_data (Op_WriteData1 i _ _) = Some i"
| "index_data (Op_WriteRead i _ _ _ _ _ _) = Some i"

fun index_para :: "para_op \<Rightarrow> ULONG option" where
  "index_para (Op_SetParaMode i _) = Some i"
| "index_para (Op_InitParallel i _) = Some i"
| "index_para (Op_EppReadData i _ _) = Some i"
| "index_para (Op_EppReadAddr i _ _) = Some i"
| "index_para (Op_EppWriteData i _ _) = Some i"
| "index_para (Op_EppWriteAddr i _ _) = Some i"
| "index_para (Op_EppSetAddr i _) = Some i"
| "index_para (Op_MemReadAddr0 i _ _) = Some i"
| "index_para (Op_MemReadAddr1 i _ _) = Some i"
| "index_para (Op_MemWriteAddr0 i _ _) = Some i"
| "index_para (Op_MemWriteAddr1 i _ _) = Some i"

fun index_int :: "int_op \<Rightarrow> ULONG option" where
  "index_int (Op_SetIntRoutine i _) = Some i"
| "index_int (Op_ReadInter i _) = Some i"
| "index_int (Op_AbortInter i) = Some i"
| "index_int (Op_ResetInter i) = Some i"
| "index_int (Op_AbortRead i) = Some i"
| "index_int (Op_AbortWrite i) = Some i"
| "index_int (Op_ResetRead i) = Some i"
| "index_int (Op_ResetWrite i) = Some i"

fun index_misc :: "misc_op \<Rightarrow> ULONG option" where
  "index_misc (Op_SetBufUpload i _) = Some i"
| "index_misc (Op_QueryBufUpload i) = Some i"
| "index_misc (Op_SetBufDownload i _) = Some i"
| "index_misc (Op_QueryBufDownload i) = Some i"
| "index_misc (Op_SetDeviceNotify i _ _) = Some i"
| "index_misc (Op_OpenDeviceEx i) = Some i"
| "index_misc (Op_CloseDeviceEx i) = Some i"
| "index_misc (Op_GetDeviceNameEx i) = Some i"
| "index_misc (Op_SetDeviceNotifyEx i _ _) = Some i"
| "index_misc (Op_SetupSerial i _ _) = Some i"
| "index_misc (Op_DllMain _) = None"

definition index_of :: "api \<Rightarrow> ULONG option" where
  "index_of c =
     (case c of
        Device x \<Rightarrow> index_dev x
      | I2C_EEPROM x \<Rightarrow> index_i2c x
      | SPI_GPIO x \<Rightarrow> index_spi x
      | Transfer x \<Rightarrow> index_data x
      | Parallel x \<Rightarrow> index_para x
      | Interrupt x \<Rightarrow> index_int x
      | Other x \<Rightarrow> index_misc x)"

text \<open>
  The functions whose source compares \<^verbatim>\<open>iIndex\<close> with
  \<^verbatim>\<open>mCH341_MAX_NUMBER\<close> (directly, or by being an alias of one that does),
  each with the value it returns when the comparison fails; \<open>None\<close> for
  the functions that have no such comparison.
\<close>

fun checked_dev :: "dev_op \<Rightarrow> ret option" where
  "checked_dev (Op_OpenDevice _) = Some (R_HANDLE INVALID_HANDLE_VALUE)"
| "checked_dev (Op_CloseDevice _) = Some (R_VOID)"
| "checked_dev (Op_ResetDevice _) = Some (R_BOOL FALSE)"
| "checked_dev (Op_GetDeviceName _) = Some (R_PVOID None)"
| "checked_dev _ = None"

fun checked_i2c :: "i2c_op \<Rightarrow> ret option" where
  "checked_i2c (Op_SetStream _ _) = Some (R_BOOL FALSE)"
| "checked_i2c _ = None"

fun checked_spi :: "spi_op \<Rightarrow> ret option" where
  "checked_spi (Op_StreamSPI4 _ _ _ _) = Some (R_BOOL FALSE)"
| "checked_spi (Op_StreamSPI5 _ _ _ _ _) = Some (R_BOOL FALSE)"
| "checked_spi (Op_StreamSPI3 _ _ _ _) = Some (R_BOOL FALSE)"
| "checked_spi _ = None"

fun checked_int :: "int_op \<Rightarrow> ret option" where
  "checked_int (Op_SetIntRoutine _ _) = Some (R_BOOL FALSE)"
| "checked_int (Op_ResetInter _) = Some (R_BOOL FALSE)"
| "checked_int _ = None"

fun checked_misc :: "misc_op \<Rightarrow> ret option" where
  "checked_misc (Op_SetBufUpload _ _) = Some (R_BOOL FALSE)"
| "checked_misc (Op_QueryBufUpload _) = Some (R_LONG (- 1))"
| "checked_misc (Op_SetBufDownload _ _) = Some (R_BOOL FALSE)"
| "checked_misc (Op_QueryBufDownload _) = Some (R_LONG (- 1))"
| "checked_misc (Op_SetDeviceNotify _ _ _) = Some (R_BOOL FALSE)"
| "checked_misc (Op_OpenDeviceEx _) = Some (R_HANDLE INVALID_HANDLE_VALUE)"
| "checked_misc (Op_CloseDeviceEx _) = Some (R_VOID)"
| "checked_misc (Op_GetDeviceNameEx _) = Some (R_PVOID None)"
| "checked_misc (Op_SetDeviceNotifyEx _ _ _) = Some (R_BOOL FALSE)"
| "checked_misc _ = None"

definition range_checked :: "api \<Rightarrow> ret option" where
  "range_checked c =
     (case c of
        Device x \<Rightarrow> checked_dev x
      | I2C_EEPROM x \<Rightarrow> checked_i2c x
      | SPI_GPIO x \<Rightarrow> checked_spi x
      | Transfer x \<Rightarrow> None
      | Parallel x \<Rightarrow> None
      | Interrupt x \<Rightarrow> checked_int x
      | Other x \<Rightarrow> checked_misc x)"

text \<open>The per-device arrays, taken together.\<close>

definition slot_tables ::
  "'d shim \<Rightarrow> (ULONG \<Rightarrow> HANDLE) \<times> (ULONG \<Rightarrow> string) \<times> (ULONG \<Rightarrow> ULONG) \<times> (ULONG \<Rightarrow> bool)
     \<times> (ULONG \<Rightarrow> callback option) \<times> (ULONG \<Rightarrow> bool) \<times> (ULONG \<Rightarrow> bool)
     \<times> (ULONG \<Rightarrow> callback option)" where
  "slot_tables s =
     (g_DeviceHandles s, g_DeviceNames s, g_StreamMode s, g_SPIInitialized s,
      g_IntRoutines s, g_BufUploadEnabled s, g_BufDownloadEnabled s, g_NotifyRoutines s)"

text \<open>The driver calls made between two states, and the SPI initialisations among them.\<close>

definition new_calls :: "'d shim \<Rightarrow> 'd shim \<Rightarrow> call list" where
  "new_calls s s' = drop (length (calls s)) (calls s')"

fun is_spi_init :: "call \<Rightarrow> bool" where
  "is_spi_init (Call_SPI_Init _ _) = True"
| "is_spi_init _ = False"

fun is_spi_data :: "call \<Rightarrow> bool" where
  "is_spi_data (Call_StreamSPI4 _ _ _ _) = True"
| "is_spi_data (Call_SPI_WriteRead _ _ _ _) = True"
| "is_spi_data _ = False"

definition spi_inits :: "call list \<Rightarrow> nat" where
  "spi_inits cs = length (filter is_spi_init cs)"

text \<open>The calls that close a slot: the close itself, its alias, and the reset.\<close>

definition closes :: "api \<Rightarrow> ULONG \<Rightarrow> bool" where
  "closes c i = (c = Device (Op_CloseDevice i) \<or> c = Other (Op_CloseDeviceEx i) \<or> c = Device (Op_ResetDevice i))"

text \<open>
  The library the loader would settle on: the primary name, else the
  alternate one.
\<close>

definition found_dll :: "'d shim \<Rightarrow> 'd ch347_dll option" where
  "found_dll s =
     (case LoadLibraryA s ''CH347DLL.DLL'' of
        Some dll \<Rightarrow> Some dll
      | None \<Rightarrow> LoadLibraryA s ''CH347DLLA64.DLL'')"

text \<open>
  What holds of every state the interface can produce: once the readiness
  flag is set, or any slot has a handle or an initialised SPI peripheral, the
  pointers are those of the library the loader finds, with both essential
  exports.
\<close>

definition bound :: "'d shim \<Rightarrow> bool" where
  "bound s =
     (found_dll s = Some (fp s) \<and> fp_CH347OpenDevice s \<noteq> None \<and> fp_CH347CloseDevice s \<noteq> None)"

definition consistent :: "'d shim \<Rightarrow> bool" where
  "consistent s =
     ((g_bInitialized s \<or> (\<exists>i. g_DeviceHandles s i \<noteq> NULL \<or> g_SPIInitialized s i)) \<longrightarrow> bound s)"

subsection \<open>A stub target\<close>

text \<open>
  A driver for running the layer on concrete inputs. Its state is a script:
  the results of the reads still to come, each a success flag, the bytes
  delivered and the length reported; a read takes the next entry and fails
  when the script is exhausted. A write accepts everything it is handed.
  Every other export succeeds.
\<close>

type_synonym script = "(BOOL \<times> UCHAR list \<times> ULONG) list"

definition scripted_read ::
  "ULONG \<Rightarrow> UCHAR list option \<Rightarrow> ULONG option \<Rightarrow> script
    \<Rightarrow> (BOOL \<times> UCHAR list \<times> ULONG) \<times> script" where
  "scripted_read i b l d = (case d of [] \<Rightarrow> ((FALSE, [], 0), []) | r # rs \<Rightarrow> (r, rs))"

definition accepting_write ::
  "ULONG \<Rightarrow> UCHAR list option \<Rightarrow> ULONG option \<Rightarrow> script \<Rightarrow> (BOOL \<times> ULONG) \<times> script" where
  "accepting_write i b l d = ((TRUE, case l of None \<Rightarrow> 0 | Some n \<Rightarrow> n), d)"

text \<open>
  What the write-then-read operation is to report against a script, in the
  words of its description: of at most \<open>n\<close> reads, the lengths of those
  before the first failing one, added up.
\<close>

definition read_ok :: "BOOL \<times> UCHAR list \<times> ULONG \<Rightarrow> bool" where
  "read_ok r = (fst r \<noteq> 0)"

definition partial_total :: "nat \<Rightarrow> script \<Rightarrow> ULONG" where
  "partial_total n rs = sum_list (map (\<lambda>r. snd (snd r)) (takeWhile read_ok (take n rs)))"

text \<open>The reads the operation issues: how many, and what each asks for.\<close>

definition reads_issued :: "nat \<Rightarrow> script \<Rightarrow> nat" where
  "reads_issued n rs = min n (Suc (length (takeWhile read_ok rs)))"

text \<open>The bytes that the reads issued deliver, in order.\<close>

definition delivered :: "nat \<Rightarrow> script \<Rightarrow> UCHAR list" where
  "delivered n rs = concat (map (\<lambda>r. fst (snd r)) (take (reads_issued n rs) rs))"

fun is_read_of :: "ULONG \<Rightarrow> ULONG \<Rightarrow> call \<Rightarrow> bool" where
  "is_read_of i st (Call_ReadData j _ l) = (j = i \<and> l = Some st)"
| "is_read_of _ _ _ = False"

definition stub_dll :: "script ch347_dll" where
  "stub_dll = \<lparr>
     CH347OpenDevice = Some (\<lambda>i d. (0x1000 + ucast i, d)),
     CH347CloseDevice = Some (\<lambda>i d. (TRUE, d)),
     CH347GetVersion = Some (\<lambda>i d. ((TRUE, 0x35, 0x21, 0x03, 0x01), d)),
     CH347GetChipType = Some (\<lambda>i d. (1, d)),
     CH347SetTimeout = Some (\<lambda>i w r d. (TRUE, d)),
     CH347GetDeviceInfor = Some (),
     CH347SetDeviceNotify = Some (\<lambda>i dv cb d. (TRUE, d)),
     CH347ReadData = Some scripted_read,
     CH347WriteData = Some accepting_write,
     CH347I2C_Set = Some (\<lambda>i m d. (TRUE, d)),
     CH347I2C_SetDelaymS = Some (\<lambda>i m d. (TRUE, d)),
     CH347StreamI2C = Some (\<lambda>i wl wb rl rb d. ((TRUE, replicate (unat rl) 0x5A), d)),
     CH347ReadEEPROM = Some (\<lambda>i e a l b d. ((TRUE, replicate (unat l) 0xEE), d)),
     CH347WriteEEPROM = Some (\<lambda>i e a l b d. (TRUE, d)),
     CH347SPI_Init = Some (\<lambda>i cfg d. (TRUE, d)),
     CH347SPI_SetFrequency = Some (),
     CH347SPI_GetCfg = Some (),
     CH347SPI_WriteRead = Some (\<lambda>i cs l b d. ((TRUE, []), d)),
     CH347StreamSPI4 = Some (\<lambda>i cs l b d. ((TRUE, []), d)),
     CH347GPIO_Get = Some (\<lambda>i d. ((TRUE, 0x0F, 0xA5), d)),
     CH347GPIO_Set = Some (\<lambda>i e dr dt d. (TRUE, d)),
     CH347SetIntRoutine = Some (\<lambda>i p0 m0 p1 m1 cb d. (TRUE, d)),
     CH347ReadInter = Some (\<lambda>i d. ((TRUE, [0x01, 0, 0, 0, 0, 0, 0, 0]), d)),
     CH347AbortInter = Some (\<lambda>i d. (TRUE, d)) \<rparr>"

text \<open>A loader that finds one library under the primary name, and one that finds none.\<close>

definition installed :: "'d ch347_dll \<Rightarrow> string \<Rightarrow> 'd ch347_dll option" where
  "installed dll name = (if name = ''CH347DLL.DLL'' then Some dll else None)"

definition not_installed :: "string \<Rightarrow> 'd ch347_dll option" where
  "not_installed name = None"

section \<open>Properties\<close>

subsection \<open>Loading the binding and the frame of each call\<close>

lemma BOOL_consts [simp]: "TRUE \<noteq> 0" "FALSE = 0" "NULL \<noteq> INVALID_HANDLE_VALUE"
  by (simp_all add: TRUE_def FALSE_def NULL_def INVALID_HANDLE_VALUE_def)

lemma LoadCH347DLL_keeps:
  "LoadCH347DLL s = (ok, s1) \<Longrightarrow>
     slot_tables s1 = slot_tables s \<and> calls s1 = calls s \<and> drv s1 = drv s
     \<and> LoadLibraryA s1 = LoadLibraryA s"
  by (auto simp: LoadCH347DLL_def slot_tables_def Let_def split: if_splits option.splits)

lemma LoadCH347DLL_flag: "LoadCH347DLL s = (ok, s1) \<Longrightarrow> ok = FALSE \<or> ok = TRUE"
  by (auto simp: LoadCH347DLL_def Let_def split: if_splits option.splits)

lemma slot_tables_invoked [simp]: "slot_tables (invoked c d s) = slot_tables s"
  by (simp add: slot_tables_def invoked_def)

lemma read_loop_tables:
  "read_loop n f i st off t mem s = (r, s') \<Longrightarrow> slot_tables s' = slot_tables s"
proof (induction n arbitrary: off t mem s r s')
  case 0
  then show ?case by simp
next
  case (Suc n)
  then show ?case
    by (auto simp: Let_def split: prod.splits if_splits)
qed

lemmas op_defs =
  CH341OpenDevice_def CH341CloseDevice_def CH341GetVersion_def CH341GetDrvVersion_def
  CH341ResetDevice_def CH341GetDeviceDescr_def CH341GetConfigDescr_def CH341GetDeviceName_def
  CH341GetVerIC_def CH341SetExclusive_def CH341SetTimeout_def CH341FlushBuffer_def
  CH341DriverCommand_def CH341SetStream_def CH341SetDelaymS_def CH341StreamI2C_def
  CH341ReadI2C_def CH341WriteI2C_def CH341ReadEEPROM_def CH341WriteEEPROM_def
  CH341StreamSPI4_def CH341StreamSPI5_def CH341BitStreamSPI_def CH341StreamSPI3_def
  spi_forward_def InitSPIForCH341_def
  CH341GetInput_def CH341GetStatus_def CH341SetOutput_def CH341Set_D5_D0_def
  CH341ReadData_def CH341WriteData_def CH341ReadData0_def CH341ReadData1_def
  CH341WriteData0_def CH341WriteData1_def CH341WriteRead_def
  CH341SetParaMode_def CH341InitParallel_def CH341EppReadData_def CH341EppReadAddr_def
  CH341EppWriteData_def CH341EppWriteAddr_def CH341EppSetAddr_def CH341MemReadAddr0_def
  CH341MemReadAddr1_def CH341MemWriteAddr0_def CH341MemWriteAddr1_def
  CH341SetIntRoutine_def CH341ReadInter_def CH341AbortInter_def CH341ResetInter_def
  CH341AbortRead_def CH341AbortWrite_def CH341ResetRead_def CH341ResetWrite_def
  CH341SetBufUpload_def CH341QueryBufUpload_def CH341SetBufDownload_def CH341QueryBufDownload_def
  CH341SetDeviceNotify_def CH341OpenDeviceEx_def CH341CloseDeviceEx_def CH341GetDeviceNameEx_def
  CH341SetDeviceNotifyEx_def CH341SetupSerial_def DllMain_def

lemma dev_tables:
  "index_dev x = Some i \<Longrightarrow> mCH341_MAX_NUMBER \<le> i \<Longrightarrow>
     slot_tables (snd (exec_dev x s)) = slot_tables s"
  by (cases x)
     (auto simp: exec_dev_def op_defs Let_def
           split: prod.splits if_splits option.splits dest!: LoadCH347DLL_keeps)


lemma i2c_tables:
  "index_i2c x = Some i \<Longrightarrow> mCH341_MAX_NUMBER \<le> i \<Longrightarrow>
     slot_tables (snd (exec_i2c x s)) = slot_tables s"
  by (cases x)
     (auto simp: exec_i2c_def op_defs Let_def
           split: prod.splits if_splits option.splits dest!: LoadCH347DLL_keeps)

lemma spi_tables:
  "index_spi x = Some i \<Longrightarrow> mCH341_MAX_NUMBER \<le> i \<Longrightarrow>
     slot_tables (snd (exec_spi x s)) = slot_tables s"
  by (cases x)
     (auto simp: exec_spi_def op_defs Let_def
           split: prod.splits if_splits option.splits dest!: LoadCH347DLL_keeps)

lemma data_tables: "slot_tables (snd (exec_data x s)) = slot_tables s"
  by (cases x)
     (auto simp: exec_data_def op_defs Let_def
           split: prod.splits if_splits option.splits
           dest!: LoadCH347DLL_keeps read_loop_tables)

lemma para_tables: "snd (exec_para x s) = s"
  by (cases x) (auto simp: exec_para_def)

lemma int_tables:
  "index_int x = Some i \<Longrightarrow> mCH341_MAX_NUMBER \<le> i \<Longrightarrow>
     slot_tables (snd (exec_int x s)) = slot_tables s"
  by (cases x)
     (auto simp: exec_int_def op_defs Let_def
           split: prod.splits if_splits option.splits dest!: LoadCH347DLL_keeps)

lemma misc_tables:
  "index_misc x = Some i \<Longrightarrow> mCH341_MAX_NUMBER \<le> i \<Longrightarrow>
     slot_tables (snd (exec_misc x s)) = slot_tables s"
  by (cases x)
     (auto simp: exec_misc_def op_defs Let_def
           split: prod.splits if_splits option.splits dest!: LoadCH347DLL_keeps)

lemma out_of_range_tables:
  "index_of c = Some i \<Longrightarrow> mCH341_MAX_NUMBER \<le> i \<Longrightarrow>
     slot_tables (snd (exec c s)) = slot_tables s"
  by (cases c)
     (simp_all add: exec_def index_of_def dev_tables i2c_tables spi_tables data_tables
        para_tables int_tables misc_tables)

lemma dev_checked:
  "index_dev x = Some i \<Longrightarrow> mCH341_MAX_NUMBER \<le> i \<Longrightarrow> checked_dev x = Some r \<Longrightarrow>
     fst (exec_dev x s) = r \<and> calls (snd (exec_dev x s)) = calls s
     \<and> drv (snd (exec_dev x s)) = drv s"
  by (cases x)
     (auto simp: exec_dev_def op_defs Let_def
           split: prod.splits if_splits option.splits dest!: LoadCH347DLL_keeps)

lemma i2c_checked:
  "index_i2c x = Some i \<Longrightarrow> mCH341_MAX_NUMBER \<le> i \<Longrightarrow> checked_i2c x = Some r \<Longrightarrow>
     fst (exec_i2c x s) = r \<and> calls (snd (exec_i2c x s)) = calls s
     \<and> drv (snd (exec_i2c x s)) = drv s"
  by (cases x)
     (auto simp: exec_i2c_def op_defs Let_def
           split: prod.splits if_splits option.splits dest!: LoadCH347DLL_keeps)

lemma spi_checked:
  "index_spi x = Some i \<Longrightarrow> mCH341_MAX_NUMBER \<le> i \<Longrightarrow> checked_spi x = Some r \<Longrightarrow>
     fst (exec_spi x s) = r \<and> calls (snd (exec_spi x s)) = calls s
     \<and> drv (snd (exec_spi x s)) = drv s"
  by (cases x)
     (auto simp: exec_spi_def op_defs Let_def
           split: prod.splits if_splits option.splits dest!: LoadCH347DLL_keeps)

lemma int_checked:
  "index_int x = Some i \<Longrightarrow> mCH341_MAX_NUMBER \<le> i \<Longrightarrow> checked_int x = Some r \<Longrightarrow>
     fst (exec_int x s) = r \<and> calls (snd (exec_int x s)) = calls s
     \<and> drv (snd (exec_int x s)) = drv s"
  by (cases x)
     (auto simp: exec_int_def op_defs Let_def
           split: prod.splits if_splits option.splits dest!: LoadCH347DLL_keeps)

lemma misc_checked:
  "index_misc x = Some i \<Longrightarrow> mCH341_MAX_NUMBER \<le> i \<Longrightarrow> checked_misc x = Some r \<Longrightarrow>
     fst (exec_misc x s) = r \<and> calls (snd (exec_misc x s)) = calls s
     \<and> drv (snd (exec_misc x s)) = drv s"
  by (cases x)
     (auto simp: exec_misc_def op_defs Let_def
           split: prod.splits if_splits option.splits dest!: LoadCH347DLL_keeps)

lemma out_of_range_checked:
  "index_of c = Some i \<Longrightarrow> mCH341_MAX_NUMBER \<le> i \<Longrightarrow> range_checked c = Some r \<Longrightarrow>
     fst (exec c s) = r \<and> calls (snd (exec c s)) = calls s \<and> drv (snd (exec c s)) = drv s"
  by (cases c)
     (simp_all add: exec_def index_of_def range_checked_def dev_checked i2c_checked spi_checked
        int_checked misc_checked)

subsection \<open>Consistency of the binding with the slot tables\<close>

text \<open>
  A slot has a handle or an initialised SPI peripheral only while the pointers
  are those of the library the loader finds; every call of the interface keeps
  this, so it holds after any history from process start.
\<close>

lemma bound_frame:
  "LoadLibraryA s' = LoadLibraryA s \<Longrightarrow> fp s' = fp s \<Longrightarrow> bound s' = bound s"
  by (simp add: bound_def found_dll_def split: option.splits)

lemma bound_invoked [simp]: "bound (invoked c d s) = bound s"
  by (rule bound_frame) (simp_all add: invoked_def)

lemma consistent_bound: "bound s \<Longrightarrow> consistent s"
  by (simp add: consistent_def)

lemma bound_updates [simp]:
  "bound (g_hCH347DLL_update a s) = bound s"
  "bound (g_bInitialized_update b s) = bound s"
  "bound (g_DeviceHandles_update h s) = bound s"
  "bound (g_DeviceNames_update n s) = bound s"
  "bound (g_StreamMode_update m s) = bound s"
  "bound (g_SPIInitialized_update p s) = bound s"
  "bound (g_IntRoutines_update q s) = bound s"
  "bound (g_BufUploadEnabled_update u s) = bound s"
  "bound (g_BufDownloadEnabled_update v s) = bound s"
  "bound (g_NotifyRoutines_update w s) = bound s"
  "bound (drv_update x s) = bound s"
  "bound (calls_update y s) = bound s"
  by (rule bound_frame, simp, simp)+

lemma consistent_frame:
  "LoadLibraryA s' = LoadLibraryA s \<Longrightarrow> fp s' = fp s \<Longrightarrow>
   g_bInitialized s' = g_bInitialized s \<Longrightarrow> g_DeviceHandles s' = g_DeviceHandles s \<Longrightarrow>
   g_SPIInitialized s' = g_SPIInitialized s \<Longrightarrow> consistent s' = consistent s"
  using bound_frame [of s' s] by (simp add: consistent_def)


lemma consistent_updates [simp]:
  "consistent (invoked c d s) = consistent s"
  "consistent (g_hCH347DLL_update a s) = consistent s"
  "consistent (g_DeviceNames_update n s) = consistent s"
  "consistent (g_StreamMode_update m s) = consistent s"
  "consistent (g_IntRoutines_update q s) = consistent s"
  "consistent (g_BufUploadEnabled_update u s) = consistent s"
  "consistent (g_BufDownloadEnabled_update v s) = consistent s"
  "consistent (g_NotifyRoutines_update w s) = consistent s"
  "consistent (drv_update x s) = consistent s"
  "consistent (calls_update y s) = consistent s"
  by (rule consistent_frame; simp add: invoked_def)+

lemma LoadCH347DLL_found:
  "\<not> g_bInitialized s \<Longrightarrow>
   LoadCH347DLL s =
     (case found_dll s of
        None \<Rightarrow> (FALSE, s\<lparr>g_hCH347DLL := None\<rparr>)
      | Some dll \<Rightarrow>
          if CH347OpenDevice dll = None \<or> CH347CloseDevice dll = None
          then (FALSE, s\<lparr>g_hCH347DLL := None, fp := dll\<rparr>)
          else (TRUE, s\<lparr>g_hCH347DLL := Some dll, fp := dll, g_bInitialized := True\<rparr>))"
  by (auto simp: LoadCH347DLL_def found_dll_def Let_def split: option.splits)

lemma LoadCH347DLL_ready: "g_bInitialized s \<Longrightarrow> LoadCH347DLL s = (TRUE, s)"
  by (simp add: LoadCH347DLL_def)

lemma LoadCH347DLL_consistent:
  assumes c: "consistent s" and l: "LoadCH347DLL s = (ok, s1)"
  shows "consistent s1" and "ok \<noteq> 0 \<Longrightarrow> bound s1"
proof -
  have "consistent s1 \<and> (ok \<noteq> 0 \<longrightarrow> bound s1)"
  proof (cases "g_bInitialized s")
    case True
    with l have "s1 = s" "ok = TRUE" by (simp_all add: LoadCH347DLL_ready)
    with c True show ?thesis by (simp add: consistent_def)
  next
    case False
    note l' = l [unfolded LoadCH347DLL_found [OF False]]
    show ?thesis
    proof (cases "found_dll s")
      case None
      with l' have "s1 = s\<lparr>g_hCH347DLL := None\<rparr>" "ok = 0" by simp_all
      with c show ?thesis by simp
    next
      case (Some dll)
      show ?thesis
      proof (cases "CH347OpenDevice dll = None \<or> CH347CloseDevice dll = None")
        case True
        with l' Some have s1: "s1 = s\<lparr>g_hCH347DLL := None, fp := dll\<rparr>" and ok: "ok = 0"
          by simp_all
        have "\<not> bound s" using True Some by (auto simp: bound_def)
        with c False have "\<forall>i. g_DeviceHandles s i = NULL \<and> \<not> g_SPIInitialized s i"
          by (simp add: consistent_def)
        with False show ?thesis by (simp add: s1 ok consistent_def)
      next
        case ess: False
        with l' Some have s1: "s1 = s\<lparr>g_hCH347DLL := Some dll, fp := dll, g_bInitialized := True\<rparr>"
          by simp
        have "bound s1" using ess Some
          by (auto simp: s1 bound_def found_dll_def split: option.splits)
        then show ?thesis by (simp add: consistent_bound)
      qed
    qed
  qed
  then show "consistent s1" and "ok \<noteq> 0 \<Longrightarrow> bound s1" by simp_all
qed


lemma Open_consistent: "consistent s \<Longrightarrow> consistent (snd (CH341OpenDevice i s))"
proof -
  assume c: "consistent s"
  obtain ok s1 where l: "LoadCH347DLL s = (ok, s1)" by (cases "LoadCH347DLL s")
  note c1 = LoadCH347DLL_consistent [OF c l]
  show ?thesis
  proof (cases "ok = 0")
    case True
    with c1 show ?thesis by (simp add: CH341OpenDevice_def l)
  next
    case False
    with c1 have "bound s1" by simp
    then have "bound (snd (CH341OpenDevice i s))"
      by (simp add: CH341OpenDevice_def l Let_def split: option.splits prod.splits)
    then show ?thesis by (rule consistent_bound)
  qed
qed

lemma Close_consistent: "consistent s \<Longrightarrow> consistent (CH341CloseDevice i s)"
proof -
  assume c: "consistent s"
  show ?thesis
  proof (cases "bound s")
    case True
    then have "bound (CH341CloseDevice i s)"
      by (simp add: CH341CloseDevice_def Let_def split: option.splits prod.splits)
    then show ?thesis by (rule consistent_bound)
  next
    case False
    with c have "\<not> g_bInitialized s" "\<forall>i. g_DeviceHandles s i = NULL \<and> \<not> g_SPIInitialized s i"
      by (auto simp: consistent_def)
    then show ?thesis
      by (simp add: CH341CloseDevice_def consistent_def invoked_def Let_def
               split: option.splits prod.splits)
  qed
qed

lemma Reset_consistent: "consistent s \<Longrightarrow> consistent (snd (CH341ResetDevice i s))"
  using Open_consistent [of "CH341CloseDevice i s" i] Close_consistent [of s i]
  by (simp add: CH341ResetDevice_def split_beta)

lemma SPI4_consistent: "consistent s \<Longrightarrow> consistent (snd (CH341StreamSPI4 i cs n b s))"
proof -
  assume c: "consistent s"
  obtain ok s1 where l: "LoadCH347DLL s = (ok, s1)" by (cases "LoadCH347DLL s")
  note c1 = LoadCH347DLL_consistent [OF c l]
  show ?thesis
  proof (cases "ok = 0")
    case True
    with c1 show ?thesis by (simp add: CH341StreamSPI4_def l)
  next
    case False
    with c1 have "bound s1" by simp
    then have "bound (snd (CH341StreamSPI4 i cs n b s))"
      by (auto simp: CH341StreamSPI4_def InitSPIForCH341_def spi_forward_def l Let_def
               split: option.splits prod.splits)
    then show ?thesis by (rule consistent_bound)
  qed
qed

lemma DllMain_consistent: "consistent s \<Longrightarrow> consistent (snd (DllMain r s))"
  by (auto simp: DllMain_def consistent_def)

lemma read_loop_consistent [simp]:
  "consistent (snd (read_loop n f i st off t mem s)) = consistent s"
  by (induction n arbitrary: off t mem s) (simp_all add: Let_def split_beta)

lemma dev_consistent: "consistent s \<Longrightarrow> consistent (snd (exec_dev x s))"
proof (cases x)
  case (Op_OpenDevice i)
  then show "consistent s \<Longrightarrow> ?thesis"
    using Open_consistent [of s i] by (simp add: exec_dev_def split_beta)
next
  case (Op_CloseDevice i)
  then show "consistent s \<Longrightarrow> ?thesis"
    using Close_consistent [of s i] by (simp add: exec_dev_def)
next
  case (Op_ResetDevice i)
  then show "consistent s \<Longrightarrow> ?thesis"
    using Reset_consistent [of s i] by (simp add: exec_dev_def split_beta)
qed (auto simp: exec_dev_def CH341GetDrvVersion_def CH341GetVerIC_def CH341SetTimeout_def
          CH341FlushBuffer_def Let_def
        split: prod.splits if_splits option.splits dest: LoadCH347DLL_consistent(1))

lemma i2c_consistent: "consistent s \<Longrightarrow> consistent (snd (exec_i2c x s))"
  by (cases x)
     (auto simp: exec_i2c_def op_defs Let_def
           split: prod.splits if_splits option.splits dest: LoadCH347DLL_consistent(1))

lemma spi_consistent: "consistent s \<Longrightarrow> consistent (snd (exec_spi x s))"
proof (cases x)
  case (Op_StreamSPI4 i cs n b)
  then show "consistent s \<Longrightarrow> ?thesis"
    using SPI4_consistent [of s i cs n b] by (simp add: exec_spi_def split_beta)
next
  case (Op_StreamSPI5 i cs n b b2)
  then show "consistent s \<Longrightarrow> ?thesis"
    using SPI4_consistent [of s i cs n b]
    by (simp add: exec_spi_def CH341StreamSPI5_def split_beta)
next
  case (Op_StreamSPI3 i cs n b)
  then show "consistent s \<Longrightarrow> ?thesis"
    using SPI4_consistent [of s i cs n b]
    by (simp add: exec_spi_def CH341StreamSPI3_def split_beta)
qed (auto simp: exec_spi_def CH341GetInput_def CH341GetStatus_def CH341SetOutput_def
          CH341Set_D5_D0_def Let_def
        split: prod.splits if_splits option.splits dest: LoadCH347DLL_consistent(1))

lemma WriteRead_consistent:
  "consistent s \<Longrightarrow> consistent (snd (CH341WriteRead i wl wb st tm ol ob s))"
  using LoadCH347DLL_consistent(1) [of s "fst (LoadCH347DLL s)" "snd (LoadCH347DLL s)"]
  by (simp add: CH341WriteRead_def Let_def split_beta split: option.splits)

lemma data_consistent: "consistent s \<Longrightarrow> consistent (snd (exec_data x s))"
proof (cases x)
  case (Op_WriteRead i wl wb st tm ol ob)
  then show "consistent s \<Longrightarrow> ?thesis"
    using WriteRead_consistent [of s i wl wb st tm ol ob] by (simp add: exec_data_def split_beta)
qed (auto simp: exec_data_def CH341ReadData_def CH341WriteData_def CH341ReadData0_def
          CH341ReadData1_def CH341WriteData0_def CH341WriteData1_def Let_def
        split: prod.splits if_splits option.splits dest: LoadCH347DLL_consistent(1))

lemma SetIntRoutine_consistent:
  "consistent s \<Longrightarrow> consistent (snd (CH341SetIntRoutine i cb s))"
  by (auto simp: CH341SetIntRoutine_def Let_def
           split: prod.splits if_splits option.splits dest: LoadCH347DLL_consistent(1))

lemma AbortInter_consistent: "consistent s \<Longrightarrow> consistent (snd (CH341AbortInter i s))"
  by (auto simp: CH341AbortInter_def Let_def
           split: prod.splits if_splits option.splits dest: LoadCH347DLL_consistent(1))

lemma ResetInter_consistent: "consistent s \<Longrightarrow> consistent (snd (CH341ResetInter i s))"
  using SetIntRoutine_consistent [of "snd (CH341AbortInter i s)" i] AbortInter_consistent [of s i]
  by (simp add: CH341ResetInter_def split_beta split: option.splits)

lemma int_consistent: "consistent s \<Longrightarrow> consistent (snd (exec_int x s))"
proof (cases x)
  case (Op_SetIntRoutine i cb)
  then show "consistent s \<Longrightarrow> ?thesis"
    using SetIntRoutine_consistent [of s i cb] by (simp add: exec_int_def split_beta)
next
  case (Op_AbortInter i)
  then show "consistent s \<Longrightarrow> ?thesis"
    using AbortInter_consistent [of s i] by (simp add: exec_int_def split_beta)
next
  case (Op_ResetInter i)
  then show "consistent s \<Longrightarrow> ?thesis"
    using ResetInter_consistent [of s i] by (simp add: exec_int_def split_beta)
qed (auto simp: exec_int_def CH341ReadInter_def Let_def
        split: prod.splits if_splits option.splits dest: LoadCH347DLL_consistent(1))

lemma misc_consistent: "consistent s \<Longrightarrow> consistent (snd (exec_misc x s))"
proof (cases x)
  case (Op_OpenDeviceEx i)
  then show "consistent s \<Longrightarrow> ?thesis"
    using Open_consistent [of s i]
    by (simp add: exec_misc_def CH341OpenDeviceEx_def split_beta)
next
  case (Op_CloseDeviceEx i)
  then show "consistent s \<Longrightarrow> ?thesis"
    using Close_consistent [of s i] by (simp add: exec_misc_def CH341CloseDeviceEx_def)
next
  case (Op_DllMain r)
  then show "consistent s \<Longrightarrow> ?thesis"
    using DllMain_consistent [of s r] by (simp add: exec_misc_def split_beta)
qed (auto simp: exec_misc_def CH341SetBufUpload_def CH341SetBufDownload_def
          CH341SetDeviceNotify_def CH341SetDeviceNotifyEx_def Let_def
        split: prod.splits if_splits option.splits dest: LoadCH347DLL_consistent(1))

lemma exec_consistent: "consistent s \<Longrightarrow> consistent (snd (exec c s))"
  by (cases c)
     (simp_all add: exec_def dev_consistent i2c_consistent spi_consistent data_consistent
        para_tables int_consistent misc_consistent)

lemma initial_consistent: "consistent (initial loader d)"
  by (simp add: consistent_def initial_def)

lemma run_consistent: "consistent s \<Longrightarrow> consistent (run cs s)"
  by (induction cs arbitrary: s) (simp_all add: exec_consistent)

subsection \<open>Evaluation on the stub target\<close>

lemmas stub_eval =
  initial_def installed_def not_installed_def stub_dll_def LoadCH347DLL_def invoked_def Let_def
  mCH341_MAX_NUMBER_def

subsection \<open>Out-of-range indices\<close>

text \<open>
  Claim C1, as stated, fails: \<^verbatim>\<open>CH341SetTimeout\<close> (like \<^verbatim>\<open>CH341SetOutput\<close> and the
  other pass-through functions) does not compare the index with
  \<^verbatim>\<open>mCH341_MAX_NUMBER\<close>; with the binding loaded, index 16 reaches the driver
  and the driver's answer is returned.
\<close>

theorem SetTimeout_out_of_range_counterexample:
  "mCH341_MAX_NUMBER \<le> 16
   \<and> fst (CH341SetTimeout 16 1000 1000 (initial (installed stub_dll) [])) = TRUE
   \<and> calls (snd (CH341SetTimeout 16 1000 1000 (initial (installed stub_dll) [])))
       = [Call_SetTimeout 16 1000 1000]"
  by (simp add: CH341SetTimeout_def stub_eval)

text \<open>
  Claim C1, amended: for every index greater than or equal to
  \<^verbatim>\<open>mCH341_MAX_NUMBER\<close>, no exported function changes any of the per-device
  arrays, and every function whose source compares the index with the
  capacity (open, close, reset, get-name, set-stream, the three SPI stream
  transfers, set-interrupt, reset-interrupt, the four buffer functions,
  set-notify, and the extended aliases) returns its failure value without
  invoking any driver function pointer and without changing the driver's
  state.
\<close>

theorem out_of_range_index_fails_closed:
  "index_of c = Some i \<Longrightarrow> mCH341_MAX_NUMBER \<le> i \<Longrightarrow>
     slot_tables (snd (exec c s)) = slot_tables s
     \<and> (\<forall>r. range_checked c = Some r \<longrightarrow>
           fst (exec c s) = r \<and> calls (snd (exec c s)) = calls s
           \<and> drv (snd (exec c s)) = drv s)"
  using out_of_range_tables out_of_range_checked by blast

theorem out_of_range_index_fails_closed_witness:
  "index_of (SPI_GPIO (Op_StreamSPI4 16 0 1 (Some [0]))) = Some 16
   \<and> mCH341_MAX_NUMBER \<le> 16
   \<and> range_checked (SPI_GPIO (Op_StreamSPI4 16 0 1 (Some [0]))) = Some (R_BOOL FALSE)
   \<and> fst (exec (SPI_GPIO (Op_StreamSPI4 16 0 1 (Some [0]))) (initial (installed stub_dll) []))
       = R_BOOL FALSE
   \<and> calls (snd (exec (SPI_GPIO (Op_StreamSPI4 16 0 1 (Some [0])))
                 (initial (installed stub_dll) []))) = []
   \<and> slot_tables (snd (exec (SPI_GPIO (Op_StreamSPI4 16 0 1 (Some [0])))
                       (initial (installed stub_dll) [])))
       = slot_tables (initial (installed stub_dll) [])"
proof -
  let ?c = "SPI_GPIO (Op_StreamSPI4 16 0 1 (Some [0]))"
  have i: "index_of ?c = Some 16" by (simp add: index_of_def)
  have m: "mCH341_MAX_NUMBER \<le> 16" by (simp add: mCH341_MAX_NUMBER_def)
  have r: "range_checked ?c = Some (R_BOOL FALSE)" by (simp add: range_checked_def)
  have e: "calls (initial (installed stub_dll) ([] :: script)) = []" by (simp add: initial_def)
  from out_of_range_index_fails_closed [OF i m, of "initial (installed stub_dll) []"] i m r e
  show ?thesis by simp
qed

subsection \<open>Chip version\<close>

text \<open>
  Claim C3, as stated, fails in its last part: when the binding cannot be
  loaded \<^verbatim>\<open>CH341GetVerIC\<close> returns 0, not \<^verbatim>\<open>IC_VER_CH341A\<close>.
\<close>

theorem GetVerIC_not_ready_counterexample:
  "fst (LoadCH347DLL (initial not_installed ([] :: script))) = FALSE
   \<and> fst (CH341GetVerIC 0 (initial not_installed ([] :: script))) = 0
   \<and> fst (CH341GetVerIC 0 (initial not_installed ([] :: script))) \<noteq> IC_VER_CH341A"
  by (simp add: CH341GetVerIC_def stub_eval IC_VER_CH341A_def)

text \<open>
  Claim C3, amended: with the binding loaded, \<^verbatim>\<open>CH341GetVerIC\<close> returns one of
  the two legacy codes, \<^verbatim>\<open>IC_VER_CH341A\<close> = 0x20 or \<^verbatim>\<open>IC_VER_CH341A3\<close> = 0x30:
  the latter exactly for the chip-type codes 1, 2 and 3, the former for code 0
  and for every other code, and also when the chip-type entry point is
  unresolved. When the binding is not ready the call returns 0.
\<close>

theorem GetVerIC_mapping:
  "LoadCH347DLL s = (ok, s1) \<Longrightarrow>
     IC_VER_CH341A = 0x20 \<and> IC_VER_CH341A3 = 0x30
     \<and> (ok = 0 \<longrightarrow> fst (CH341GetVerIC i s) = 0)
     \<and> (ok \<noteq> 0 \<longrightarrow>
          (fst (CH341GetVerIC i s) = IC_VER_CH341A \<or> fst (CH341GetVerIC i s) = IC_VER_CH341A3)
          \<and> (fp_CH347GetChipType s1 = None \<longrightarrow> fst (CH341GetVerIC i s) = IC_VER_CH341A)
          \<and> (\<forall>f. fp_CH347GetChipType s1 = Some f \<longrightarrow>
                (fst (CH341GetVerIC i s) = IC_VER_CH341A3) = (fst (f i (drv s)) \<in> {1, 2, 3})))"
  by (auto simp: CH341GetVerIC_def IC_VER_CH341A_def IC_VER_CH341A3_def split_beta
           split: option.splits dest!: LoadCH347DLL_keeps)

theorem GetVerIC_mapping_witness:
  "fst (CH341GetVerIC 0 (initial (installed stub_dll) [])) = IC_VER_CH341A3
   \<and> fst (CH341GetVerIC 0 (initial (installed (stub_dll\<lparr>CH347GetChipType := None\<rparr>)) []))
       = IC_VER_CH341A
   \<and> fst (CH341GetVerIC 0 (initial not_installed ([] :: script))) = 0"
proof -
  let ?s = "initial (installed stub_dll) ([] :: script)"
  let ?u = "initial (installed (stub_dll\<lparr>CH347GetChipType := None\<rparr>)) ([] :: script)"
  let ?n = "initial not_installed ([] :: script)"
  obtain s1 where l: "LoadCH347DLL ?s = (TRUE, s1)"
    and f: "fp_CH347GetChipType s1 = CH347GetChipType stub_dll"
    by (simp add: stub_eval)
  obtain u1 where k: "LoadCH347DLL ?u = (TRUE, u1)" and g: "fp_CH347GetChipType u1 = None"
    by (simp add: stub_eval)
  obtain n1 where m: "LoadCH347DLL ?n = (0, n1)"
    by (simp add: stub_eval)
  from GetVerIC_mapping [OF l, of 0] f have "fst (CH341GetVerIC 0 ?s) = IC_VER_CH341A3"
    by (simp add: stub_dll_def initial_def)
  moreover from GetVerIC_mapping [OF k, of 0] g have "fst (CH341GetVerIC 0 ?u) = IC_VER_CH341A"
    by simp
  moreover from GetVerIC_mapping [OF m, of 0] have "fst (CH341GetVerIC 0 ?n) = 0"
    by simp
  ultimately show ?thesis by simp
qed

subsection \<open>Single-byte I2C transactions\<close>

text \<open>
  Claim C4, as stated, fails for a null output pointer: \<^verbatim>\<open>CH341ReadI2C\<close>
  checks \<^verbatim>\<open>oByte\<close> after the binding and the entry point, and returns
  \<^verbatim>\<open>FALSE\<close> without any driver call.
\<close>

theorem ReadI2C_null_output_counterexample:
  "fst (LoadCH347DLL (initial (installed stub_dll) [])) = TRUE
   \<and> fp_CH347StreamI2C (snd (LoadCH347DLL (initial (installed stub_dll) []))) \<noteq> None
   \<and> fst (fst (CH341ReadI2C 0 0x50 0x10 None (initial (installed stub_dll) []))) = FALSE
   \<and> calls (snd (CH341ReadI2C 0 0x50 0x10 None (initial (installed stub_dll) []))) = []"
  by (simp add: CH341ReadI2C_def stub_eval)

text \<open>
  Claim C4, amended: with the binding loaded and the streaming entry point
  resolved, \<^verbatim>\<open>CH341ReadI2C\<close> with a non-null output pointer issues exactly one
  driver call, the streaming call with write buffer \<open>[dev << 1, addr]\<close> (length
  2, the shift taken in 8 bits) and read length 1 into the caller's byte, and
  \<^verbatim>\<open>CH341WriteI2C\<close> issues exactly one driver call, the streaming call with
  write buffer \<open>[dev << 1, addr, val]\<close> (length 3), read length 0 and a null
  read buffer; each returns what the streaming call returns.
\<close>

theorem single_byte_I2C_is_one_streaming_call:
  "LoadCH347DLL s = (ok, s1) \<Longrightarrow> ok \<noteq> 0 \<Longrightarrow> fp_CH347StreamI2C s1 = Some f \<Longrightarrow>
     calls (snd (CH341ReadI2C i dev addr (Some b) s))
       = calls s @ [Call_StreamI2C i 2 (Some [push_bit 1 dev, addr]) 1 (Some [b])]
     \<and> fst (fst (CH341ReadI2C i dev addr (Some b) s))
       = fst (fst (f i 2 (Some [push_bit 1 dev, addr]) 1 (Some [b]) (drv s)))
     \<and> calls (snd (CH341WriteI2C i dev addr v s))
       = calls s @ [Call_StreamI2C i 3 (Some [push_bit 1 dev, addr, v]) 0 None]
     \<and> fst (CH341WriteI2C i dev addr v s)
       = fst (fst (f i 3 (Some [push_bit 1 dev, addr, v]) 0 None (drv s)))"
  by (auto simp: CH341ReadI2C_def CH341WriteI2C_def invoked_def Let_def split_beta
           dest!: LoadCH347DLL_keeps)

theorem single_byte_I2C_is_one_streaming_call_witness:
  "calls (snd (CH341ReadI2C 0 0x50 0x10 (Some 0) (initial (installed stub_dll) [])))
     = [Call_StreamI2C 0 2 (Some [0xA0, 0x10]) 1 (Some [0])]
   \<and> fst (fst (CH341ReadI2C 0 0x50 0x10 (Some 0) (initial (installed stub_dll) []))) = TRUE
   \<and> calls (snd (CH341WriteI2C 0 0x50 0x10 0x7F (initial (installed stub_dll) [])))
     = [Call_StreamI2C 0 3 (Some [0xA0, 0x10, 0x7F]) 0 None]
   \<and> fst (CH341WriteI2C 0 0x50 0x10 0x7F (initial (installed stub_dll) [])) = TRUE"
proof -
  let ?s = "initial (installed stub_dll) ([] :: script)"
  obtain s1 where l: "LoadCH347DLL ?s = (TRUE, s1)"
    and f: "fp_CH347StreamI2C s1 = CH347StreamI2C stub_dll"
    by (simp add: stub_eval)
  have f': "fp_CH347StreamI2C s1 = Some (\<lambda>i wl wb rl rb d. ((TRUE, replicate (unat rl) 0x5A), d))"
    by (simp add: f stub_dll_def)
  have e: "calls ?s = []" by (simp add: initial_def)
  from single_byte_I2C_is_one_streaming_call [OF l _ f', of 0 "0x50" "0x10" 0 "0x7F"] e
  show ?thesis by simp
qed

subsection \<open>Interrupt routine\<close>

text \<open>
  Claim C5, as stated, fails: \<^verbatim>\<open>CH341SetIntRoutine\<close> returns before the
  assignment when the binding cannot be loaded, and the slot keeps what it had.
\<close>

theorem SetIntRoutine_not_ready_counterexample:
  "(0 :: ULONG) < mCH341_MAX_NUMBER
   \<and> fst (CH341SetIntRoutine 0 (Some 0x401000) (initial not_installed ([] :: script))) = FALSE
   \<and> g_IntRoutines (snd (CH341SetIntRoutine 0 (Some 0x401000)
                            (initial not_installed ([] :: script)))) 0 = None"
  by (simp add: CH341SetIntRoutine_def stub_eval)

text \<open>
  Claim C5, amended: for every valid index and every callback argument
  (including the empty one), once the binding is loaded
  \<^verbatim>\<open>CH341SetIntRoutine\<close> stores the argument in that slot's entry of
  \<^verbatim>\<open>g_IntRoutines\<close>, whether the call then succeeds or fails (it fails when
  the driver's entry point is unresolved, and returns the driver's answer
  otherwise); when the binding cannot be loaded it returns \<^verbatim>\<open>FALSE\<close> and
  leaves the array as it was.
\<close>

theorem SetIntRoutine_records_callback:
  "i < mCH341_MAX_NUMBER \<Longrightarrow> LoadCH347DLL s = (ok, s1) \<Longrightarrow>
     (ok \<noteq> 0 \<longrightarrow>
        g_IntRoutines (snd (CH341SetIntRoutine i cb s)) i = cb
        \<and> (fp_CH347SetIntRoutine s1 = None \<longrightarrow> fst (CH341SetIntRoutine i cb s) = FALSE)
        \<and> (\<forall>f. fp_CH347SetIntRoutine s1 = Some f \<longrightarrow>
              fst (CH341SetIntRoutine i cb s)
                = (case cb of
                     Some _ \<Rightarrow> fst (f i 0 0 255 0 (Some CH347IntWrapper) (drv s))
                   | None \<Rightarrow> fst (f i 255 0 255 0 None (drv s)))))
     \<and> (ok = 0 \<longrightarrow>
          fst (CH341SetIntRoutine i cb s) = FALSE
          \<and> g_IntRoutines (snd (CH341SetIntRoutine i cb s)) = g_IntRoutines s)"
  by (auto simp: CH341SetIntRoutine_def invoked_def Let_def split_beta slot_tables_def
           split: option.splits dest!: LoadCH347DLL_keeps)

theorem SetIntRoutine_records_callback_witness:
  "(3 :: ULONG) < mCH341_MAX_NUMBER
   \<and> g_IntRoutines (snd (CH341SetIntRoutine 3 (Some 0x401000) (initial (installed stub_dll) []))) 3
       = Some 0x401000
   \<and> fst (CH341SetIntRoutine 3 (Some 0x401000) (initial (installed stub_dll) [])) = TRUE
   \<and> g_IntRoutines (snd (CH341SetIntRoutine 3 (Some 0x401000)
        (initial (installed (stub_dll\<lparr>CH347SetIntRoutine := None\<rparr>)) []))) 3 = Some 0x401000
   \<and> fst (CH341SetIntRoutine 3 (Some 0x401000)
        (initial (installed (stub_dll\<lparr>CH347SetIntRoutine := None\<rparr>)) [])) = FALSE"
proof -
  let ?s = "initial (installed stub_dll) ([] :: script)"
  let ?u = "initial (installed (stub_dll\<lparr>CH347SetIntRoutine := None\<rparr>)) ([] :: script)"
  have i: "(3 :: ULONG) < mCH341_MAX_NUMBER" by (simp add: mCH341_MAX_NUMBER_def)
  obtain s1 where l: "LoadCH347DLL ?s = (TRUE, s1)"
    and f: "fp_CH347SetIntRoutine s1 = Some (\<lambda>i p0 m0 p1 m1 cb d. (TRUE, d))"
    by (simp add: stub_eval)
  obtain u1 where k: "LoadCH347DLL ?u = (TRUE, u1)" and g: "fp_CH347SetIntRoutine u1 = None"
    by (simp add: stub_eval)
  from SetIntRoutine_records_callback [OF i l, of "Some 0x401000"] f
  have "g_IntRoutines (snd (CH341SetIntRoutine 3 (Some 0x401000) ?s)) 3 = Some 0x401000
        \<and> fst (CH341SetIntRoutine 3 (Some 0x401000) ?s) = TRUE"
    by simp
  moreover from SetIntRoutine_records_callback [OF i k, of "Some 0x401000"] g
  have "g_IntRoutines (snd (CH341SetIntRoutine 3 (Some 0x401000) ?u)) 3 = Some 0x401000
        \<and> fst (CH341SetIntRoutine 3 (Some 0x401000) ?u) = FALSE"
    by simp
  ultimately show ?thesis using i by simp
qed

subsection \<open>Input status\<close>

text \<open>
  Claim C8: whenever \<^verbatim>\<open>CH341GetInput\<close> succeeds, the status it stores is
  the data byte the driver reported, widened to 32 bits: bits 8 and above are
  zero, whatever the byte.
\<close>

theorem GetInput_status_is_data_byte:
  "CH341GetInput i st s = ((r, st'), s') \<Longrightarrow> r \<noteq> 0 \<Longrightarrow>
     \<exists>f rr dir data d.
        fp_CH347GPIO_Get (snd (LoadCH347DLL s)) = Some f
        \<and> f i (drv s) = ((rr, dir, data), d)
        \<and> st' = Some (ucast data)
        \<and> drop_bit 8 (ucast data :: ULONG) = 0
        \<and> (ucast data :: ULONG) \<le> 0xFF"
proof -
  assume a: "CH341GetInput i st s = ((r, st'), s')" and r: "r \<noteq> 0"
  have hi: "drop_bit 8 (ucast data :: ULONG) = 0" for data :: UCHAR
    by (rule bit_word_eqI) (auto simp: bit_simps dest: bit_imp_le_length)
  have le: "(ucast data :: ULONG) \<le> 0xFF" for data :: UCHAR
  proof -
    have "unat data < 2 ^ 8" using unsigned_less [of data, where 'a = nat] by simp
    then have "unat (ucast data :: ULONG) = unat data" and "unat data \<le> 255"
      by (simp_all add: unsigned_ucast_eq take_bit_nat_eq_self)
    then show ?thesis by (simp add: word_le_nat_alt)
  qed
  obtain ok s1 where l: "LoadCH347DLL s = (ok, s1)" by (cases "LoadCH347DLL s")
  from LoadCH347DLL_keeps [OF l] have d: "drv s1 = drv s" by simp
  from a r show ?thesis
    by (auto simp: CH341GetInput_def l d hi le split: if_splits option.splits prod.splits)
qed

theorem GetInput_status_is_data_byte_witness:
  "CH341GetInput 0 (Some 0xDEADBEEF)
     (initial (installed (stub_dll\<lparr>CH347GPIO_Get := Some (\<lambda>i d. ((TRUE, 0x0F, 0xFF), d))\<rparr>)) [])
     = ((TRUE, Some 0xFF),
        snd (CH341GetInput 0 (Some 0xDEADBEEF)
          (initial (installed (stub_dll\<lparr>CH347GPIO_Get := Some (\<lambda>i d. ((TRUE, 0x0F, 0xFF), d))\<rparr>)) [])))
   \<and> TRUE \<noteq> 0
   \<and> drop_bit 8 (0xFF :: ULONG) = 0"
proof -
  let ?s = "initial (installed (stub_dll\<lparr>CH347GPIO_Get := Some (\<lambda>i d. ((TRUE, 0x0F, 0xFF), d))\<rparr>))
              ([] :: script)"
  have a: "CH341GetInput 0 (Some 0xDEADBEEF) ?s
           = ((TRUE, Some 0xFF), snd (CH341GetInput 0 (Some 0xDEADBEEF) ?s))"
    by (simp add: CH341GetInput_def stub_eval)
  have t: "TRUE \<noteq> 0" by simp
  from GetInput_status_is_data_byte [OF a t]
  obtain data :: UCHAR where "Some (0xFF :: ULONG) = Some (ucast data)"
    and "drop_bit 8 (ucast data :: ULONG) = 0"
    by blast
  then have "drop_bit 8 (0xFF :: ULONG) = 0" by simp
  with a t show ?thesis by simp
qed

subsection \<open>Stream mode without the speed entry point\<close>

text \<open>
  Claim C10: with the binding loaded but the driver's I2C speed entry point
  unresolved, \<^verbatim>\<open>CH341SetStream\<close> on a valid index stores the whole mode word
  in the slot's entry of \<^verbatim>\<open>g_StreamMode\<close> and returns \<^verbatim>\<open>TRUE\<close>, invoking no
  driver function.
\<close>

theorem SetStream_without_speed_entry_point:
  "i < mCH341_MAX_NUMBER \<Longrightarrow> LoadCH347DLL s = (ok, s1) \<Longrightarrow> ok \<noteq> 0 \<Longrightarrow>
   fp_CH347I2C_Set s1 = None \<Longrightarrow>
     fst (CH341SetStream i m s) = TRUE
     \<and> g_StreamMode (snd (CH341SetStream i m s)) i = m
     \<and> calls (snd (CH341SetStream i m s)) = calls s
     \<and> drv (snd (CH341SetStream i m s)) = drv s"
  by (auto simp: CH341SetStream_def Let_def dest!: LoadCH347DLL_keeps)

theorem SetStream_without_speed_entry_point_witness:
  "(2 :: ULONG) < mCH341_MAX_NUMBER
   \<and> fst (CH341SetStream 2 0x83 (initial (installed (stub_dll\<lparr>CH347I2C_Set := None\<rparr>)) []))
       = TRUE
   \<and> g_StreamMode (snd (CH341SetStream 2 0x83
        (initial (installed (stub_dll\<lparr>CH347I2C_Set := None\<rparr>)) []))) 2 = 0x83
   \<and> calls (snd (CH341SetStream 2 0x83
        (initial (installed (stub_dll\<lparr>CH347I2C_Set := None\<rparr>)) []))) = []"
proof -
  let ?s = "initial (installed (stub_dll\<lparr>CH347I2C_Set := None\<rparr>)) ([] :: script)"
  have i: "(2 :: ULONG) < mCH341_MAX_NUMBER" by (simp add: mCH341_MAX_NUMBER_def)
  obtain s1 where l: "LoadCH347DLL ?s = (TRUE, s1)" and f: "fp_CH347I2C_Set s1 = None"
    by (simp add: stub_eval)
  have e: "calls ?s = []" by (simp add: initial_def)
  from SetStream_without_speed_entry_point [OF i l _ f, of "0x83"] i e
  show ?thesis by simp
qed

subsection \<open>Reset\<close>

text \<open>
  Claim C7 does not hold of the code. \<^verbatim>\<open>CH341ResetDevice\<close> is a close followed
  by an open, but it reports success whenever the handle that the open
  returns differs from \<^verbatim>\<open>INVALID_HANDLE_VALUE\<close>, while \<^verbatim>\<open>CH341OpenDevice\<close>
  records a handle only if it is neither \<^verbatim>\<open>INVALID_HANDLE_VALUE\<close> nor
  \<^verbatim>\<open>NULL\<close>. With a driver whose open returns \<^verbatim>\<open>NULL\<close>, the reset returns
  \<^verbatim>\<open>TRUE\<close> and the slot is left closed.
\<close>

theorem ResetDevice_null_handle_reports_success:
  "(0 :: ULONG) < mCH341_MAX_NUMBER
   \<and> CH341ResetDevice 0
        (initial (installed (stub_dll\<lparr>CH347OpenDevice := Some (\<lambda>i d. (NULL, d))\<rparr>)) [])
      = (case CH341OpenDevice 0 (CH341CloseDevice 0
           (initial (installed (stub_dll\<lparr>CH347OpenDevice := Some (\<lambda>i d. (NULL, d))\<rparr>)) []))
         of (h, s') \<Rightarrow> (TRUE, s'))
   \<and> fst (CH341ResetDevice 0
        (initial (installed (stub_dll\<lparr>CH347OpenDevice := Some (\<lambda>i d. (NULL, d))\<rparr>)) [])) = TRUE
   \<and> g_DeviceHandles (snd (CH341ResetDevice 0
        (initial (installed (stub_dll\<lparr>CH347OpenDevice := Some (\<lambda>i d. (NULL, d))\<rparr>)) []))) 0 = NULL
   \<and> CH341GetDeviceName 0 (snd (CH341ResetDevice 0
        (initial (installed (stub_dll\<lparr>CH347OpenDevice := Some (\<lambda>i d. (NULL, d))\<rparr>)) []))) = None
   \<and> calls (snd (CH341ResetDevice 0
        (initial (installed (stub_dll\<lparr>CH347OpenDevice := Some (\<lambda>i d. (NULL, d))\<rparr>)) [])))
      = [Call_OpenDevice 0]"
  by (simp add: CH341ResetDevice_def CH341OpenDevice_def CH341CloseDevice_def
        CH341GetDeviceName_def stub_eval no_exports_def)

subsection \<open>Close\<close>

lemma Close_closed:
  "consistent s \<Longrightarrow> i < mCH341_MAX_NUMBER \<Longrightarrow>
     g_DeviceHandles (CH341CloseDevice i s) i = NULL \<and> \<not> g_SPIInitialized (CH341CloseDevice i s) i"
proof -
  assume c: "consistent s" and "i < mCH341_MAX_NUMBER"
  then have i: "\<not> mCH341_MAX_NUMBER \<le> i" by simp
  show ?thesis
  proof (cases "fp_CH347CloseDevice s")
    case None
    then have "\<not> bound s" by (simp add: bound_def)
    with c have "g_DeviceHandles s i = NULL \<and> \<not> g_SPIInitialized s i"
      by (auto simp: consistent_def)
    with None i show ?thesis by (simp add: CH341CloseDevice_def)
  next
    case (Some f)
    with i show ?thesis
      by (simp add: CH341CloseDevice_def invoked_def Let_def split_beta)
  qed
qed

lemma Close_twice_tables:
  "slot_tables (CH341CloseDevice i (CH341CloseDevice i s)) = slot_tables (CH341CloseDevice i s)"
  by (simp add: CH341CloseDevice_def slot_tables_def invoked_def Let_def split_beta
           split: option.splits)

lemma Close_out_of_range: "mCH341_MAX_NUMBER \<le> i \<Longrightarrow> CH341CloseDevice i s = s"
  by (simp add: CH341CloseDevice_def)

text \<open>
  Claim C9: in every state the interface can reach from process start, closing
  a slot twice in a row leaves the slot closed after the first call and after
  the second (handle cleared, SPI flag false, no device name), the second call
  changes none of the per-device arrays, and for an index outside the capacity
  both calls change nothing at all. The function returns nothing, so there is
  no failure to report.
\<close>

theorem CloseDevice_idempotent:
  "s = run h (initial loader d) \<Longrightarrow> s1 = CH341CloseDevice i s \<Longrightarrow> s2 = CH341CloseDevice i s1 \<Longrightarrow>
     slot_tables s2 = slot_tables s1
     \<and> (i < mCH341_MAX_NUMBER \<longrightarrow>
          g_DeviceHandles s1 i = NULL \<and> \<not> g_SPIInitialized s1 i \<and> CH341GetDeviceName i s1 = None
          \<and> g_DeviceHandles s2 i = NULL \<and> \<not> g_SPIInitialized s2 i \<and> CH341GetDeviceName i s2 = None)
     \<and> (mCH341_MAX_NUMBER \<le> i \<longrightarrow> s1 = s \<and> s2 = s)"
proof -
  assume s: "s = run h (initial loader d)" and s1: "s1 = CH341CloseDevice i s"
    and s2: "s2 = CH341CloseDevice i s1"
  have c: "consistent s" unfolding s by (rule run_consistent) (rule initial_consistent)
  then have c1: "consistent s1" unfolding s1 by (rule Close_consistent)
  have "slot_tables s2 = slot_tables s1" unfolding s2 s1 by (rule Close_twice_tables)
  moreover have "g_DeviceHandles s1 i = NULL \<and> \<not> g_SPIInitialized s1 i \<and> CH341GetDeviceName i s1 = None
      \<and> g_DeviceHandles s2 i = NULL \<and> \<not> g_SPIInitialized s2 i \<and> CH341GetDeviceName i s2 = None"
    if "i < mCH341_MAX_NUMBER"
    using Close_closed [OF c that] Close_closed [OF c1 that]
    by (simp add: s1 [symmetric] s2 [symmetric] CH341GetDeviceName_def)
  moreover have "s1 = s \<and> s2 = s" if "mCH341_MAX_NUMBER \<le> i"
    using that by (simp add: s1 s2 Close_out_of_range)
  ultimately show ?thesis by blast
qed

lemma run_open_transfer:
  "g_DeviceHandles
     (run [Device (Op_OpenDevice 2), SPI_GPIO (Op_StreamSPI4 2 0 1 (Some [0]))]
        (initial (installed stub_dll) [])) 2 = 0x1002
   \<and> g_SPIInitialized
     (run [Device (Op_OpenDevice 2), SPI_GPIO (Op_StreamSPI4 2 0 1 (Some [0]))]
        (initial (installed stub_dll) [])) 2"
  by (simp add: exec_def exec_dev_def exec_spi_def CH341OpenDevice_def CH341StreamSPI4_def
        InitSPIForCH341_def spi_forward_def stub_eval NULL_def INVALID_HANDLE_VALUE_def)

theorem CloseDevice_idempotent_witness:
  "(2 :: ULONG) < mCH341_MAX_NUMBER
   \<and> g_DeviceHandles
        (run [Device (Op_OpenDevice 2), SPI_GPIO (Op_StreamSPI4 2 0 1 (Some [0]))]
           (initial (installed stub_dll) [])) 2 = 0x1002
   \<and> g_SPIInitialized
        (run [Device (Op_OpenDevice 2), SPI_GPIO (Op_StreamSPI4 2 0 1 (Some [0]))]
           (initial (installed stub_dll) [])) 2
   \<and> g_DeviceHandles
        (CH341CloseDevice 2 (CH341CloseDevice 2
           (run [Device (Op_OpenDevice 2), SPI_GPIO (Op_StreamSPI4 2 0 1 (Some [0]))]
              (initial (installed stub_dll) [])))) 2 = NULL
   \<and> \<not> g_SPIInitialized
        (CH341CloseDevice 2 (CH341CloseDevice 2
           (run [Device (Op_OpenDevice 2), SPI_GPIO (Op_StreamSPI4 2 0 1 (Some [0]))]
              (initial (installed stub_dll) [])))) 2"
proof -
  have i: "(2 :: ULONG) < mCH341_MAX_NUMBER" by (simp add: mCH341_MAX_NUMBER_def)
  from CloseDevice_idempotent [OF refl refl refl,
      of 2 "[Device (Op_OpenDevice 2), SPI_GPIO (Op_StreamSPI4 2 0 1 (Some [0]))]"
         "installed stub_dll" "[]"] i run_open_transfer
  show ?thesis by simp
qed

subsection \<open>Lazy SPI initialisation\<close>

lemma new_calls_append: "calls s' = calls s @ cs \<Longrightarrow> new_calls s s' = cs"
  by (simp add: new_calls_def)

lemma spi_inits_data: "list_all is_spi_data cs \<Longrightarrow> spi_inits cs = 0"
proof (induction cs)
  case Nil
  then show ?case by (simp add: spi_inits_def)
next
  case (Cons c cs)
  then show ?case by (cases c) (simp_all add: spi_inits_def)
qed

lemma flags_of_tables: "slot_tables s' = slot_tables s \<Longrightarrow> g_SPIInitialized s' = g_SPIInitialized s"
  by (simp add: slot_tables_def)

lemma spi_forward_calls:
  "\<exists>rest. calls (snd (spi_forward i cs n b s)) = calls s @ rest
      \<and> list_all is_spi_data rest \<and> length rest \<le> 1"
  by (simp add: spi_forward_def invoked_def split_beta split: option.splits)

lemma spi_forward_flags [simp]:
  "g_SPIInitialized (snd (spi_forward i cs n b s)) = g_SPIInitialized s"
  by (simp add: spi_forward_def invoked_def split_beta split: option.splits)

lemma SPI4_first_unresolved:
  assumes "LoadCH347DLL s = (ok, s1)" and "ok \<noteq> 0" and "i < mCH341_MAX_NUMBER"
    and "\<not> g_SPIInitialized s i" and "fp_CH347SPI_Init s1 = None"
  shows "fst (fst (CH341StreamSPI4 i cs n b s)) = FALSE
     \<and> calls (snd (CH341StreamSPI4 i cs n b s)) = calls s
     \<and> \<not> g_SPIInitialized (snd (CH341StreamSPI4 i cs n b s)) i"
proof -
  from LoadCH347DLL_keeps [OF assms(1)]
  have k: "g_SPIInitialized s1 = g_SPIInitialized s" "calls s1 = calls s"
    by (simp_all add: slot_tables_def)
  from assms(3) have i: "\<not> mCH341_MAX_NUMBER \<le> i" by simp
  show ?thesis
    using assms(2,4,5) i k by (simp add: CH341StreamSPI4_def assms(1) InitSPIForCH341_def)
qed

lemma SPI4_first_init:
  assumes "LoadCH347DLL s = (ok, s1)" and "ok \<noteq> 0" and "i < mCH341_MAX_NUMBER"
    and "\<not> g_SPIInitialized s i" and "fp_CH347SPI_Init s1 = Some f"
  shows "\<exists>rest. calls (snd (CH341StreamSPI4 i cs n b s))
            = calls s @ Call_SPI_Init i (ch341_spi_cfg cs) # rest
       \<and> list_all is_spi_data rest \<and> length rest \<le> 1
       \<and> g_SPIInitialized (snd (CH341StreamSPI4 i cs n b s)) i
            = (fst (f i (ch341_spi_cfg cs) (drv s)) \<noteq> 0)
       \<and> (fst (f i (ch341_spi_cfg cs) (drv s)) = 0 \<longrightarrow>
             fst (fst (CH341StreamSPI4 i cs n b s)) = FALSE \<and> rest = [])"
proof -
  from LoadCH347DLL_keeps [OF assms(1)]
  have k: "g_SPIInitialized s1 = g_SPIInitialized s" "calls s1 = calls s" "drv s1 = drv s"
    by (simp_all add: slot_tables_def)
  from assms(3) have i: "\<not> mCH341_MAX_NUMBER \<le> i" by simp
  obtain r d where fr: "f i (ch341_spi_cfg cs) (drv s) = (r, d)"
    by (cases "f i (ch341_spi_cfg cs) (drv s)")
  let ?s2 = "invoked (Call_SPI_Init i (ch341_spi_cfg cs)) d s1"
  show ?thesis
  proof (cases "r = 0")
    case True
    then have "CH341StreamSPI4 i cs n b s = ((FALSE, b), ?s2)"
      using assms(2,4,5) i k fr by (simp add: CH341StreamSPI4_def assms(1) InitSPIForCH341_def)
    then show ?thesis using True fr k assms(4) by (simp add: invoked_def)
  next
    case False
    let ?s3 = "?s2\<lparr>g_SPIInitialized := (g_SPIInitialized ?s2)(i := True)\<rparr>"
    from False have t: "CH341StreamSPI4 i cs n b s = spi_forward i cs n b ?s3"
      using assms(2,4,5) i k fr by (simp add: CH341StreamSPI4_def assms(1) InitSPIForCH341_def)
    from spi_forward_calls [of i cs n b ?s3]
    obtain rest where "calls (snd (spi_forward i cs n b ?s3)) = calls ?s3 @ rest"
      and "list_all is_spi_data rest" and "length rest \<le> 1"
      by blast
    then show ?thesis using False fr k by (simp add: t invoked_def)
  qed
qed

lemma SPI4_later:
  assumes "LoadCH347DLL s = (ok, s1)" and "ok \<noteq> 0" and "i < mCH341_MAX_NUMBER"
    and "g_SPIInitialized s i"
  shows "\<exists>rest. calls (snd (CH341StreamSPI4 i cs n b s)) = calls s @ rest
       \<and> list_all is_spi_data rest \<and> length rest \<le> 1
       \<and> g_SPIInitialized (snd (CH341StreamSPI4 i cs n b s)) i"
proof -
  from LoadCH347DLL_keeps [OF assms(1)]
  have k: "g_SPIInitialized s1 = g_SPIInitialized s" "calls s1 = calls s"
    by (simp_all add: slot_tables_def)
  from assms(3) have i: "\<not> mCH341_MAX_NUMBER \<le> i" by simp
  have t: "CH341StreamSPI4 i cs n b s = spi_forward i cs n b s1"
    using assms(2,4) i k by (simp add: CH341StreamSPI4_def assms(1))
  from spi_forward_calls [of i cs n b s1] show ?thesis
    using k assms(4) by (simp add: t)
qed

lemma Open_keeps_flags: "g_SPIInitialized (snd (CH341OpenDevice i s)) = g_SPIInitialized s"
  by (auto simp: CH341OpenDevice_def invoked_def Let_def slot_tables_def
           split: prod.splits option.splits dest!: LoadCH347DLL_keeps)

lemma Close_keeps_other_flags:
  "g_SPIInitialized s i \<Longrightarrow> j \<noteq> i \<Longrightarrow> g_SPIInitialized (CH341CloseDevice j s) i"
  by (simp add: CH341CloseDevice_def invoked_def Let_def split_beta split: option.splits)

lemma SPI4_keeps_set_flags:
  "g_SPIInitialized s i \<Longrightarrow> g_SPIInitialized (snd (CH341StreamSPI4 j cs n b s)) i"
  by (auto simp: CH341StreamSPI4_def InitSPIForCH341_def invoked_def slot_tables_def
           split: prod.splits option.splits if_splits dest!: LoadCH347DLL_keeps)

lemma invoked_flags [simp]: "g_SPIInitialized (invoked c d s) = g_SPIInitialized s"
  by (simp add: invoked_def)

lemma LoadCH347DLL_flags:
  "LoadCH347DLL s = (ok, s1) \<Longrightarrow> g_SPIInitialized s1 = g_SPIInitialized s"
  by (drule LoadCH347DLL_keeps) (simp add: slot_tables_def)

lemma Reset_keeps_other_flags:
  "g_SPIInitialized s i \<Longrightarrow> j \<noteq> i \<Longrightarrow> g_SPIInitialized (snd (CH341ResetDevice j s)) i"
  using Close_keeps_other_flags [of s i j] Open_keeps_flags [of j "CH341CloseDevice j s"]
  by (simp add: CH341ResetDevice_def split_beta)

lemma dev_keeps_flag:
  "g_SPIInitialized s i \<Longrightarrow> x \<noteq> Op_CloseDevice i \<Longrightarrow> x \<noteq> Op_ResetDevice i \<Longrightarrow>
     g_SPIInitialized (snd (exec_dev x s)) i"
proof (cases x)
  case (Op_OpenDevice j)
  then show "g_SPIInitialized s i \<Longrightarrow> ?thesis"
    by (simp add: exec_dev_def split_beta Open_keeps_flags)
next
  case (Op_CloseDevice j)
  then show "g_SPIInitialized s i \<Longrightarrow> x \<noteq> Op_CloseDevice i \<Longrightarrow> ?thesis"
    by (simp add: exec_dev_def Close_keeps_other_flags)
next
  case (Op_ResetDevice j)
  then show "g_SPIInitialized s i \<Longrightarrow> x \<noteq> Op_ResetDevice i \<Longrightarrow> ?thesis"
    by (simp add: exec_dev_def split_beta Reset_keeps_other_flags)
qed (auto simp: exec_dev_def CH341GetDrvVersion_def CH341GetVerIC_def CH341SetTimeout_def
          CH341FlushBuffer_def
        split: prod.splits if_splits option.splits dest!: LoadCH347DLL_flags)

lemma i2c_keeps_flag: "g_SPIInitialized s i \<Longrightarrow> g_SPIInitialized (snd (exec_i2c x s)) i"
  by (cases x)
     (auto simp: exec_i2c_def op_defs Let_def
           split: prod.splits if_splits option.splits dest!: LoadCH347DLL_flags)

lemma spi_keeps_flag: "g_SPIInitialized s i \<Longrightarrow> g_SPIInitialized (snd (exec_spi x s)) i"
proof (cases x)
  case (Op_StreamSPI4 j cs n b)
  then show "g_SPIInitialized s i \<Longrightarrow> ?thesis"
    by (simp add: exec_spi_def split_beta SPI4_keeps_set_flags)
next
  case (Op_StreamSPI5 j cs n b b2)
  then show "g_SPIInitialized s i \<Longrightarrow> ?thesis"
    by (simp add: exec_spi_def CH341StreamSPI5_def split_beta SPI4_keeps_set_flags)
next
  case (Op_StreamSPI3 j cs n b)
  then show "g_SPIInitialized s i \<Longrightarrow> ?thesis"
    by (simp add: exec_spi_def CH341StreamSPI3_def split_beta SPI4_keeps_set_flags)
qed (auto simp: exec_spi_def CH341GetInput_def CH341GetStatus_def CH341SetOutput_def
          CH341Set_D5_D0_def Let_def
        split: prod.splits if_splits option.splits dest!: LoadCH347DLL_flags)

lemma data_keeps_flag: "g_SPIInitialized s i \<Longrightarrow> g_SPIInitialized (snd (exec_data x s)) i"
  using flags_of_tables [OF data_tables, of x s] by simp

lemma int_keeps_flag: "g_SPIInitialized s i \<Longrightarrow> g_SPIInitialized (snd (exec_int x s)) i"
  by (cases x)
     (auto simp: exec_int_def op_defs Let_def
           split: prod.splits if_splits option.splits dest!: LoadCH347DLL_flags)

lemma misc_keeps_flag:
  "g_SPIInitialized s i \<Longrightarrow> x \<noteq> Op_CloseDeviceEx i \<Longrightarrow>
     g_SPIInitialized (snd (exec_misc x s)) i"
proof (cases x)
  case (Op_OpenDeviceEx j)
  then show "g_SPIInitialized s i \<Longrightarrow> ?thesis"
    by (simp add: exec_misc_def CH341OpenDeviceEx_def split_beta Open_keeps_flags)
next
  case (Op_CloseDeviceEx j)
  then show "g_SPIInitialized s i \<Longrightarrow> x \<noteq> Op_CloseDeviceEx i \<Longrightarrow> ?thesis"
    by (simp add: exec_misc_def CH341CloseDeviceEx_def Close_keeps_other_flags)
qed (auto simp: exec_misc_def CH341SetBufUpload_def CH341SetBufDownload_def
          CH341SetDeviceNotify_def CH341SetDeviceNotifyEx_def DllMain_def Let_def
        split: prod.splits if_splits option.splits dest!: LoadCH347DLL_flags)

lemma exec_keeps_flag:
  "g_SPIInitialized s i \<Longrightarrow> \<not> closes c i \<Longrightarrow> g_SPIInitialized (snd (exec c s)) i"
  by (cases c)
     (simp_all add: exec_def closes_def dev_keeps_flag i2c_keeps_flag spi_keeps_flag
        data_keeps_flag para_tables int_keeps_flag misc_keeps_flag)

lemmas spi_eval =
  exec_def exec_dev_def exec_spi_def CH341OpenDevice_def CH341StreamSPI4_def
  InitSPIForCH341_def spi_forward_def stub_eval NULL_def INVALID_HANDLE_VALUE_def
  new_calls_def spi_inits_def

text \<open>
  Claim C2, as stated, fails in two ways. The initialisation is a call of the
  driver's \<^verbatim>\<open>CH347SPI_Init\<close>, which \<^verbatim>\<open>InitSPIForCH341\<close> makes only if that
  entry point is resolved: with a library that lacks it, the first transfer
  after a successful open fails with no initialisation call at all. And the
  flag that guards the initialisation is cleared by close only, never by
  open: after open, transfer, open again, the first transfer after the second
  open makes no initialisation call.
\<close>

theorem SPI_first_transfer_counterexample:
  "fst (CH341OpenDevice 0 (initial (installed (stub_dll\<lparr>CH347SPI_Init := None\<rparr>)) [])) = 0x1000
   \<and> fst (fst (CH341StreamSPI4 0 0 1 (Some [0])
        (snd (CH341OpenDevice 0 (initial (installed (stub_dll\<lparr>CH347SPI_Init := None\<rparr>)) [])))))
       = FALSE
   \<and> spi_inits (new_calls
        (snd (CH341OpenDevice 0 (initial (installed (stub_dll\<lparr>CH347SPI_Init := None\<rparr>)) [])))
        (snd (CH341StreamSPI4 0 0 1 (Some [0])
          (snd (CH341OpenDevice 0 (initial (installed (stub_dll\<lparr>CH347SPI_Init := None\<rparr>)) []))))))
       = 0
   \<and> fst (CH341OpenDevice 0
        (run [Device (Op_OpenDevice 0), SPI_GPIO (Op_StreamSPI4 0 0 1 (Some [0]))]
           (initial (installed stub_dll) []))) = 0x1000
   \<and> fst (fst (CH341StreamSPI4 0 0 1 (Some [0])
        (run [Device (Op_OpenDevice 0), SPI_GPIO (Op_StreamSPI4 0 0 1 (Some [0])),
              Device (Op_OpenDevice 0)]
           (initial (installed stub_dll) [])))) = TRUE
   \<and> spi_inits (new_calls
        (run [Device (Op_OpenDevice 0), SPI_GPIO (Op_StreamSPI4 0 0 1 (Some [0])),
              Device (Op_OpenDevice 0)]
           (initial (installed stub_dll) []))
        (snd (CH341StreamSPI4 0 0 1 (Some [0])
          (run [Device (Op_OpenDevice 0), SPI_GPIO (Op_StreamSPI4 0 0 1 (Some [0])),
                Device (Op_OpenDevice 0)]
             (initial (installed stub_dll) []))))) = 0"
  by (simp add: spi_eval)

text \<open>
  Claim C2, amended. In every state reachable from process start, for a valid
  index and with the binding loaded: a transfer on a slot whose
  \<^verbatim>\<open>g_SPIInitialized\<close> flag is false (as at process start and after a close)
  makes, if \<^verbatim>\<open>CH347SPI_Init\<close> is resolved, exactly one initialisation call, as
  its first driver call and before the at most one data call; the flag is set
  exactly if that call succeeds; if it fails, the transfer returns \<^verbatim>\<open>FALSE\<close>
  with no data call and the flag still false, so a later transfer tries again;
  if the entry point is unresolved the transfer returns \<^verbatim>\<open>FALSE\<close> with no
  driver call and the flag false. A transfer on a slot whose flag is set makes
  no initialisation call and leaves the flag set. The flag of a slot stays set
  across every call of the interface other than a close or a reset of that
  slot; a close clears it; an open does not change it.
\<close>

theorem SPI_initialised_once_until_close:
  assumes s: "s = run h (initial loader d)" and i: "i < mCH341_MAX_NUMBER"
    and l: "LoadCH347DLL s = (ok, s1)" and ok: "ok \<noteq> 0"
    and t: "t = CH341StreamSPI4 i cs n b s"
  shows
   "calls (snd t) = calls s @ new_calls s (snd t)
    \<and> (\<not> g_SPIInitialized s i \<longrightarrow>
         (fp_CH347SPI_Init s1 = None \<longrightarrow>
            fst (fst t) = FALSE \<and> new_calls s (snd t) = [] \<and> \<not> g_SPIInitialized (snd t) i)
         \<and> (\<forall>f. fp_CH347SPI_Init s1 = Some f \<longrightarrow>
              (\<exists>rest. new_calls s (snd t) = Call_SPI_Init i (ch341_spi_cfg cs) # rest
                      \<and> list_all is_spi_data rest \<and> length rest \<le> 1)
              \<and> spi_inits (new_calls s (snd t)) = 1
              \<and> g_SPIInitialized (snd t) i = (fst (f i (ch341_spi_cfg cs) (drv s)) \<noteq> 0)
              \<and> (fst (f i (ch341_spi_cfg cs) (drv s)) = 0 \<longrightarrow>
                   fst (fst t) = FALSE
                   \<and> new_calls s (snd t) = [Call_SPI_Init i (ch341_spi_cfg cs)])))
    \<and> (g_SPIInitialized s i \<longrightarrow>
         spi_inits (new_calls s (snd t)) = 0 \<and> list_all is_spi_data (new_calls s (snd t))
         \<and> g_SPIInitialized (snd t) i)
    \<and> (\<forall>c. g_SPIInitialized s i \<longrightarrow> \<not> closes c i \<longrightarrow> g_SPIInitialized (snd (exec c s)) i)
    \<and> \<not> g_SPIInitialized (CH341CloseDevice i s) i
    \<and> g_SPIInitialized (snd (CH341OpenDevice i s)) = g_SPIInitialized s"
proof -
  have c: "consistent s" unfolding s by (rule run_consistent) (rule initial_consistent)
  have unresolved: "fst (fst t) = FALSE \<and> new_calls s (snd t) = [] \<and> \<not> g_SPIInitialized (snd t) i"
    if "\<not> g_SPIInitialized s i" and "fp_CH347SPI_Init s1 = None"
    using SPI4_first_unresolved [OF l ok i that, of cs n b]
    by (simp add: t new_calls_def)
  have resolved:
    "(\<exists>rest. new_calls s (snd t) = Call_SPI_Init i (ch341_spi_cfg cs) # rest
         \<and> list_all is_spi_data rest \<and> length rest \<le> 1)
     \<and> spi_inits (new_calls s (snd t)) = 1
     \<and> g_SPIInitialized (snd t) i = (fst (f i (ch341_spi_cfg cs) (drv s)) \<noteq> 0)
     \<and> (fst (f i (ch341_spi_cfg cs) (drv s)) = 0 \<longrightarrow>
          fst (fst t) = FALSE \<and> new_calls s (snd t) = [Call_SPI_Init i (ch341_spi_cfg cs)])"
    if "\<not> g_SPIInitialized s i" and "fp_CH347SPI_Init s1 = Some f" for f
  proof -
    from SPI4_first_init [OF l ok i that, of cs n b]
    obtain rest where
      r: "calls (snd t) = calls s @ Call_SPI_Init i (ch341_spi_cfg cs) # rest"
        "list_all is_spi_data rest" "length rest \<le> 1"
        "g_SPIInitialized (snd t) i = (fst (f i (ch341_spi_cfg cs) (drv s)) \<noteq> 0)"
        "fst (f i (ch341_spi_cfg cs) (drv s)) = 0 \<longrightarrow> fst (fst t) = FALSE \<and> rest = []"
      unfolding t by blast
    from r(1) have n: "new_calls s (snd t) = Call_SPI_Init i (ch341_spi_cfg cs) # rest"
      by (rule new_calls_append)
    have "spi_inits (Call_SPI_Init i (ch341_spi_cfg cs) # rest) = Suc (spi_inits rest)"
      by (simp add: spi_inits_def)
    with spi_inits_data [OF r(2)] have "spi_inits (new_calls s (snd t)) = 1"
      by (simp add: n)
    with n r show ?thesis by simp
  qed
  have later: "spi_inits (new_calls s (snd t)) = 0 \<and> list_all is_spi_data (new_calls s (snd t))
      \<and> g_SPIInitialized (snd t) i"
    if "g_SPIInitialized s i"
  proof -
    from SPI4_later [OF l ok i that, of cs n b]
    obtain rest where r: "calls (snd t) = calls s @ rest" "list_all is_spi_data rest"
      "g_SPIInitialized (snd t) i"
      unfolding t by blast
    from r(1) have "new_calls s (snd t) = rest" by (rule new_calls_append)
    with r spi_inits_data [OF r(2)] show ?thesis by simp
  qed
  have grows: "calls (snd t) = calls s @ new_calls s (snd t)"
  proof (cases "g_SPIInitialized s i")
    case True
    from SPI4_later [OF l ok i True, of cs n b] show ?thesis
      unfolding t by (auto simp: new_calls_def)
  next
    case False
    show ?thesis
    proof (cases "fp_CH347SPI_Init s1")
      case None
      from SPI4_first_unresolved [OF l ok i False None, of cs n b] show ?thesis
        by (simp add: t new_calls_def)
    next
      case (Some f)
      from SPI4_first_init [OF l ok i False Some, of cs n b] show ?thesis
        unfolding t by (auto simp: new_calls_def)
    qed
  qed
  from grows unresolved resolved later exec_keeps_flag [of s i] Close_closed [OF c i]
    Open_keeps_flags [of i s]
  show ?thesis by blast
qed


theorem SPI_initialised_once_until_close_witness:
  "(0 :: ULONG) < mCH341_MAX_NUMBER
   \<and> \<not> g_SPIInitialized (run [] (initial (installed stub_dll) [])) 0
   \<and> spi_inits (new_calls (run [] (initial (installed stub_dll) []))
        (snd (CH341StreamSPI4 0 0 1 (Some [0]) (run [] (initial (installed stub_dll) []))))) = 1
   \<and> g_SPIInitialized
        (snd (CH341StreamSPI4 0 0 1 (Some [0]) (run [] (initial (installed stub_dll) [])))) 0
   \<and> g_SPIInitialized
        (run [SPI_GPIO (Op_StreamSPI4 0 0 1 (Some [0]))] (initial (installed stub_dll) [])) 0
   \<and> spi_inits (new_calls
        (run [SPI_GPIO (Op_StreamSPI4 0 0 1 (Some [0]))] (initial (installed stub_dll) []))
        (snd (CH341StreamSPI4 0 0 1 (Some [0])
          (run [SPI_GPIO (Op_StreamSPI4 0 0 1 (Some [0]))] (initial (installed stub_dll) [])))))
       = 0
   \<and> fst (fst (CH341StreamSPI4 0 0 1 (Some [0])
        (run [] (initial (installed (stub_dll\<lparr>CH347SPI_Init := Some (\<lambda>i c d. (FALSE, d))\<rparr>)) []))))
       = FALSE
   \<and> \<not> g_SPIInitialized (snd (CH341StreamSPI4 0 0 1 (Some [0])
        (run [] (initial (installed (stub_dll\<lparr>CH347SPI_Init := Some (\<lambda>i c d. (FALSE, d))\<rparr>)) []))))
        0"
proof -
  let ?a = "run [] (initial (installed stub_dll) ([] :: script))"
  let ?b = "run [SPI_GPIO (Op_StreamSPI4 0 0 1 (Some [0]))]
              (initial (installed stub_dll) ([] :: script))"
  let ?c = "run [] (initial (installed (stub_dll\<lparr>CH347SPI_Init := Some (\<lambda>i c d. (FALSE, d))\<rparr>))
              ([] :: script))"
  have i: "(0 :: ULONG) < mCH341_MAX_NUMBER" by (simp add: mCH341_MAX_NUMBER_def)
  have t: "TRUE \<noteq> 0" by simp
  obtain a1 where la: "LoadCH347DLL ?a = (TRUE, a1)"
    and fa: "fp_CH347SPI_Init a1 = Some (\<lambda>i c d. (TRUE, d))"
    by (simp add: stub_eval)
  have na: "\<not> g_SPIInitialized ?a 0" by (simp add: initial_def)
  obtain b1 where lb: "LoadCH347DLL ?b = (TRUE, b1)"
    by (cases "LoadCH347DLL ?b") (simp add: spi_eval)
  have nb: "g_SPIInitialized ?b 0" by (simp add: spi_eval)
  obtain c1 where lc: "LoadCH347DLL ?c = (TRUE, c1)"
    and fc: "fp_CH347SPI_Init c1 = Some (\<lambda>i c d. (FALSE, d))"
    by (simp add: stub_eval)
  have nc: "\<not> g_SPIInitialized ?c 0" by (simp add: initial_def)
  from SPI_initialised_once_until_close [OF refl i la t refl, where cs = 0 and n = 1 and b = "Some [0]"]
    na fa
  have "spi_inits (new_calls ?a (snd (CH341StreamSPI4 0 0 1 (Some [0]) ?a))) = 1
      \<and> g_SPIInitialized (snd (CH341StreamSPI4 0 0 1 (Some [0]) ?a)) 0"
    by simp
  moreover
  from SPI_initialised_once_until_close [OF refl i lb t refl, where cs = 0 and n = 1 and b = "Some [0]"]
    nb
  have "spi_inits (new_calls ?b (snd (CH341StreamSPI4 0 0 1 (Some [0]) ?b))) = 0"
    by simp
  moreover
  from SPI_initialised_once_until_close [OF refl i lc t refl, where cs = 0 and n = 1 and b = "Some [0]"]
    nc fc
  have "fst (fst (CH341StreamSPI4 0 0 1 (Some [0]) ?c)) = FALSE
      \<and> \<not> g_SPIInitialized (snd (CH341StreamSPI4 0 0 1 (Some [0]) ?c)) 0"
    by simp
  ultimately show ?thesis using i na nb by simp
qed

subsection \<open>Write, then read in steps\<close>

lemma read_loop_calls:
  "\<exists>cs. calls (snd (read_loop n f i st off t mem s)) = calls s @ cs
      \<and> list_all (is_read_of i st) cs \<and> length cs \<le> n"
proof (induction n arbitrary: off t mem s)
  case 0
  then show ?case by simp
next
  case (Suc n)
  obtain r w len d where f: "f i (Some (drop off mem)) (Some st) (drv s) = ((r, w, len), d)"
    by (cases "f i (Some (drop off mem)) (Some st) (drv s)") auto
  let ?s1 = "invoked (Call_ReadData i (Some (drop off mem)) (Some st)) d s"
  let ?mem1 = "take off mem @ overlay w (drop off mem)"
  show ?case
  proof (cases "r = 0")
    case True
    then show ?thesis by (simp add: f invoked_def)
  next
    case False
    from Suc.IH [of "off + unat len" "t + len" ?mem1 ?s1]
    obtain cs where
      "calls (snd (read_loop n f i st (off + unat len) (t + len) ?mem1 ?s1)) = calls ?s1 @ cs"
      and "list_all (is_read_of i st) cs" and "length cs \<le> n"
      by blast
    with False show ?thesis by (simp add: f invoked_def Let_def)
  qed
qed

lemma partial_total_Cons:
  "partial_total (Suc n) (r # rs) = (if read_ok r then snd (snd r) + partial_total n rs else 0)"
  by (simp add: partial_total_def)

lemma reads_issued_Cons:
  "reads_issued (Suc n) (r # rs) = (if read_ok r then Suc (reads_issued n rs) else 1)"
  by (simp add: reads_issued_def)

lemma scripted_read_simps:
  "scripted_read i b l [] = ((FALSE, [], 0), [])"
  "scripted_read i b l (r # rs) = (r, rs)"
  by (simp_all add: scripted_read_def)

lemma read_loop_scripted:
  "drv s = rs \<Longrightarrow>
     fst (fst (read_loop n scripted_read i st off t mem s)) = t + partial_total n rs
     \<and> drv (snd (read_loop n scripted_read i st off t mem s)) = drop (reads_issued n rs) rs
     \<and> length (calls (snd (read_loop n scripted_read i st off t mem s)))
         = length (calls s) + reads_issued n rs"
proof (induction n arbitrary: off t mem s rs)
  case 0
  then show ?case by (simp add: partial_total_def reads_issued_def)
next
  case (Suc n)
  show ?case
  proof (cases rs)
    case Nil
    have "scripted_read i (Some (drop off mem)) (Some st) (drv s) = ((0, [], 0), [])"
      using Suc.prems Nil by (simp add: scripted_read_simps)
    then show ?thesis
      by (simp add: Nil invoked_def partial_total_def reads_issued_def)
  next
    case (Cons r rs')
    obtain ok w len where r: "r = (ok, w, len)" by (cases r)
    have sr: "scripted_read i (Some (drop off mem)) (Some st) (drv s) = ((ok, w, len), rs')"
      using Suc.prems Cons r by (simp add: scripted_read_simps)
    let ?s1 = "invoked (Call_ReadData i (Some (drop off mem)) (Some st)) rs' s"
    let ?mem1 = "take off mem @ overlay w (drop off mem)"
    show ?thesis
    proof (cases "ok = 0")
      case True
      then have "read_loop (Suc n) scripted_read i st off t mem s = ((t, ?mem1), ?s1)"
        by (simp add: sr)
      moreover have "partial_total (Suc n) rs = 0" "reads_issued (Suc n) rs = 1"
        using True by (simp_all add: Cons r partial_total_Cons reads_issued_Cons read_ok_def)
      ultimately show ?thesis by (simp add: invoked_def Cons)
    next
      case False
      then have step: "read_loop (Suc n) scripted_read i st off t mem s
          = read_loop n scripted_read i st (off + unat len) (t + len) ?mem1 ?s1"
        by (simp add: sr)
      have pt: "partial_total (Suc n) rs = len + partial_total n rs'"
        and ri: "reads_issued (Suc n) rs = Suc (reads_issued n rs')"
        using False by (simp_all add: Cons r partial_total_Cons reads_issued_Cons read_ok_def)
      have d: "drv ?s1 = rs'" and c: "length (calls ?s1) = Suc (length (calls s))"
        by (simp_all add: invoked_def)
      from Suc.IH [OF d, of "off + unat len" "t + len" ?mem1]
      show ?thesis
        unfolding step pt ri c by (simp add: Cons add.assoc)
    qed
  qed
qed


lemma delivered_Cons:
  "delivered (Suc n) (r # rs) = (if read_ok r then fst (snd r) @ delivered n rs else fst (snd r))"
  by (simp add: delivered_def reads_issued_Cons)

lemma overlay_step:
  assumes "off + length w \<le> length mem"
  shows "length (take off mem @ overlay w (drop off mem)) = length mem"
    and "take (off + length w) (take off mem @ overlay w (drop off mem)) = take off mem @ w"
    and "drop (off + length w) (take off mem @ overlay w (drop off mem)) = drop (off + length w) mem"
proof -
  have e: "w = []" if "length mem \<le> off"
    using assms that by (cases w) simp_all
  show "length (take off mem @ overlay w (drop off mem)) = length mem"
    and "take (off + length w) (take off mem @ overlay w (drop off mem)) = take off mem @ w"
    and "drop (off + length w) (take off mem @ overlay w (drop off mem)) = drop (off + length w) mem"
    using assms e by (auto simp: overlay_def min_def add.commute)
qed

lemma overlay_append:
  "take off mem @ w @ overlay D (drop (off + length w) mem)
     = take off mem @ overlay (w @ D) (drop off mem)"
  by (simp add: overlay_def add.commute add.left_commute)

lemma read_loop_buffer:
  "drv s = rs \<Longrightarrow>
   \<forall>r \<in> set (takeWhile read_ok (take n rs)). length (fst (snd r)) = unat (snd (snd r)) \<Longrightarrow>
   off + length (delivered n rs) \<le> length mem \<Longrightarrow>
     snd (fst (read_loop n scripted_read i st off t mem s))
       = take off mem @ overlay (delivered n rs) (drop off mem)"
proof (induction n arbitrary: off t mem s rs)
  case 0
  then show ?case by (simp add: delivered_def reads_issued_def overlay_def)
next
  case (Suc n)
  show ?case
  proof (cases rs)
    case Nil
    have "scripted_read i (Some (drop off mem)) (Some st) (drv s) = ((0, [], 0), [])"
      using Suc.prems(1) Nil by (simp add: scripted_read_simps)
    then show ?thesis
      by (simp add: Nil delivered_def overlay_def)
  next
    case (Cons r rs')
    obtain ok w len where r: "r = (ok, w, len)" by (cases r)
    have sr: "scripted_read i (Some (drop off mem)) (Some st) (drv s) = ((ok, w, len), rs')"
      using Suc.prems(1) Cons r by (simp add: scripted_read_simps)
    let ?s1 = "invoked (Call_ReadData i (Some (drop off mem)) (Some st)) rs' s"
    let ?mem1 = "take off mem @ overlay w (drop off mem)"
    show ?thesis
    proof (cases "ok = 0")
      case True
      then have "read_loop (Suc n) scripted_read i st off t mem s = ((t, ?mem1), ?s1)"
        by (simp add: sr)
      moreover have "delivered (Suc n) rs = w"
        using True by (simp add: Cons r delivered_Cons read_ok_def)
      ultimately show ?thesis by simp
    next
      case False
      then have step: "read_loop (Suc n) scripted_read i st off t mem s
          = read_loop n scripted_read i st (off + unat len) (t + len) ?mem1 ?s1"
        by (simp add: sr)
      have dl: "delivered (Suc n) rs = w @ delivered n rs'"
        using False by (simp add: Cons r delivered_Cons read_ok_def)
      have rok: "read_ok r" using False by (simp add: r read_ok_def)
      have lw: "length w = unat len"
        and rest: "\<forall>r \<in> set (takeWhile read_ok (take n rs')). length (fst (snd r)) = unat (snd (snd r))"
        using Suc.prems(2) rok by (simp_all add: Cons) (simp add: r)
      from Suc.prems(3) have fit: "off + length w \<le> length mem"
        and fit': "(off + length w) + length (delivered n rs') \<le> length mem"
        by (simp_all add: dl)
      note o = overlay_step [OF fit]
      have d: "drv ?s1 = rs'" by (simp add: invoked_def)
      from fit' have "(off + unat len) + length (delivered n rs') \<le> length ?mem1"
        by (simp only: o(1) lw)
      from Suc.IH [OF d rest this, of "t + len"]
      have "snd (fst (read_loop n scripted_read i st (off + unat len) (t + len) ?mem1 ?s1))
          = take (off + length w) ?mem1 @ overlay (delivered n rs') (drop (off + length w) ?mem1)"
        by (simp add: lw)
      also have "\<dots> = take off mem @ w @ overlay (delivered n rs') (drop (off + length w) mem)"
        by (simp only: o append_assoc)
      also have "\<dots> = take off mem @ overlay (w @ delivered n rs') (drop off mem)"
        by (rule overlay_append)
      finally show ?thesis by (simp only: step dl)
    qed
  qed
qed

lemma WriteRead_after_write:
  assumes l: "LoadCH347DLL s = (ok, s1)" and ok: "ok \<noteq> 0"
    and fw: "fp_CH347WriteData s1 = Some fw" and fr: "fp_CH347ReadData s1 = Some fr"
    and w: "wl = 0 \<or> fst (fst (fw i wb (Some wl) (drv s))) \<noteq> 0"
    and s2: "s2 = (if 0 < wl
                   then invoked (Call_WriteData i wb (Some wl)) (snd (fw i wb (Some wl) (drv s))) s1
                   else s1)"
  shows "CH341WriteRead i wl wb st tm ol ob s =
           (case (ol, ob) of
              (Some _, Some mem) \<Rightarrow>
                if 0 < st \<and> 0 < tm
                then (case read_loop (unat tm) fr i st 0 0 mem s2 of
                        ((totalRead, mem1), s3) \<Rightarrow> ((TRUE, Some totalRead, Some mem1), s3))
                else ((TRUE, ol, ob), s2)
            | _ \<Rightarrow> ((TRUE, ol, ob), s2))"
    and "calls s2 = calls s @ (if 0 < wl then [Call_WriteData i wb (Some wl)] else [])"
    and "fp_CH347ReadData s2 = Some fr"
proof -
  from LoadCH347DLL_keeps [OF l] have k: "calls s1 = calls s" "drv s1 = drv s" by simp_all
  show "calls s2 = calls s @ (if 0 < wl then [Call_WriteData i wb (Some wl)] else [])"
    by (simp add: s2 k invoked_def)
  show "fp_CH347ReadData s2 = Some fr"
    by (simp add: s2 fr invoked_def)
  show "CH341WriteRead i wl wb st tm ol ob s =
           (case (ol, ob) of
              (Some _, Some mem) \<Rightarrow>
                if 0 < st \<and> 0 < tm
                then (case read_loop (unat tm) fr i st 0 0 mem s2 of
                        ((totalRead, mem1), s3) \<Rightarrow> ((TRUE, Some totalRead, Some mem1), s3))
                else ((TRUE, ol, ob), s2)
            | _ \<Rightarrow> ((TRUE, ol, ob), s2))"
  proof (cases "0 < wl")
    case True
    with w have "fst (fst (fw i wb (Some wl) (drv s))) \<noteq> 0" by auto
    with True show ?thesis
      by (auto simp: CH341WriteRead_def l ok fw fr k s2 split_beta split: option.splits)
  next
    case False
    then show ?thesis
      by (auto simp: CH341WriteRead_def l ok fw fr k s2 split: option.splits)
  qed
qed


text \<open>
  Claim C6: once the write phase has not failed (there is nothing to write, or
  the one write call succeeds), \<^verbatim>\<open>CH341WriteRead\<close> returns \<^verbatim>\<open>TRUE\<close> whatever the
  reads do; after the write call, if any, it makes only read calls on the same
  index, each asking for \<^verbatim>\<open>iReadStep\<close> bytes, at most \<^verbatim>\<open>iReadTimes\<close> of them.
  Against a scripted target it stores in \<^verbatim>\<open>*oReadLength\<close> the lengths of the
  reads before the first failing one added up, issues no read after a failing
  one, and, when every successful read delivers as many bytes as it reports and
  they fit, leaves the delivered bytes one after the other at the start of the
  output buffer.
\<close>

theorem WriteRead_reports_partial_total:
  assumes l: "LoadCH347DLL s = (ok, s1)" and ok: "ok \<noteq> 0"
    and fw: "fp_CH347WriteData s1 = Some fw" and fr: "fp_CH347ReadData s1 = Some fr"
    and w: "wl = 0 \<or> fst (fst (fw i wb (Some wl) (drv s))) \<noteq> 0"
    and t: "t = CH341WriteRead i wl wb st tm ol ob s"
  shows
   "fst (fst t) = TRUE
    \<and> calls (snd t) = calls s @ new_calls s (snd t)
    \<and> (\<exists>reads. new_calls s (snd t)
            = (if 0 < wl then [Call_WriteData i wb (Some wl)] else []) @ reads
          \<and> list_all (is_read_of i st) reads \<and> length reads \<le> unat tm)
    \<and> (\<forall>l0 mem. ol = Some l0 \<longrightarrow> ob = Some mem \<longrightarrow> 0 < st \<longrightarrow> 0 < tm \<longrightarrow>
          fr = scripted_read \<longrightarrow> (0 < wl \<longrightarrow> fw = accepting_write) \<longrightarrow>
            fst (snd (fst t)) = Some (partial_total (unat tm) (drv s))
            \<and> length (new_calls s (snd t))
                = (if 0 < wl then 1 else 0) + reads_issued (unat tm) (drv s)
            \<and> drv (snd t) = drop (reads_issued (unat tm) (drv s)) (drv s)
            \<and> ((\<forall>r \<in> set (takeWhile read_ok (take (unat tm) (drv s))).
                    length (fst (snd r)) = unat (snd (snd r))) \<longrightarrow>
                length (delivered (unat tm) (drv s)) \<le> length mem \<longrightarrow>
                  snd (snd (fst t)) = Some (overlay (delivered (unat tm) (drv s)) mem)))"
proof -
  define s2 where "s2 = (if 0 < wl
      then invoked (Call_WriteData i wb (Some wl)) (snd (fw i wb (Some wl) (drv s))) s1
      else s1)"
  note u = WriteRead_after_write(1) [OF l ok fw fr w s2_def]
    WriteRead_after_write(2) [OF l ok fw fr w s2_def]
  let ?W = "if 0 < wl then [Call_WriteData i wb (Some wl)] else []"
  from LoadCH347DLL_keeps [OF l] have k: "drv s1 = drv s" by simp
  have grows: "fst (fst t) = TRUE
      \<and> (\<exists>reads. calls (snd t) = calls s @ ?W @ reads
            \<and> list_all (is_read_of i st) reads \<and> length reads \<le> unat tm)"
  proof (cases "\<exists>l0 mem. ol = Some l0 \<and> ob = Some mem \<and> 0 < st \<and> 0 < tm")
    case True
    then obtain l0 mem where a: "ol = Some l0" "ob = Some mem" "0 < st" "0 < tm" by blast
    from read_loop_calls [of "unat tm" fr i st 0 0 mem s2]
    obtain cs where c: "calls (snd (read_loop (unat tm) fr i st 0 0 mem s2)) = calls s2 @ cs"
      "list_all (is_read_of i st) cs" "length cs \<le> unat tm"
      by blast
    have "snd t = snd (read_loop (unat tm) fr i st 0 0 mem s2)" and "fst (fst t) = TRUE"
      by (simp_all add: t u(1) a split_beta)
    with c u(2) show ?thesis by simp
  next
    case False
    then have "t = ((TRUE, ol, ob), s2)"
      by (auto simp: t u(1) split: option.splits)
    with u(2) show ?thesis by simp
  qed
  then obtain reads where g: "calls (snd t) = calls s @ ?W @ reads"
    and rd: "list_all (is_read_of i st) reads" "length reads \<le> unat tm"
    by blast
  from g have nc: "new_calls s (snd t) = ?W @ reads" by (rule new_calls_append)
  have reading: "fst (fst t) = TRUE
      \<and> calls (snd t) = calls s @ new_calls s (snd t)
      \<and> (\<exists>reads. new_calls s (snd t) = ?W @ reads
            \<and> list_all (is_read_of i st) reads \<and> length reads \<le> unat tm)"
    using grows g rd nc by auto
  have scripted:
    "fst (snd (fst t)) = Some (partial_total (unat tm) (drv s))
     \<and> length (new_calls s (snd t)) = (if 0 < wl then 1 else 0) + reads_issued (unat tm) (drv s)
     \<and> drv (snd t) = drop (reads_issued (unat tm) (drv s)) (drv s)
     \<and> ((\<forall>r \<in> set (takeWhile read_ok (take (unat tm) (drv s))).
            length (fst (snd r)) = unat (snd (snd r))) \<longrightarrow>
         length (delivered (unat tm) (drv s)) \<le> length mem \<longrightarrow>
           snd (snd (fst t)) = Some (overlay (delivered (unat tm) (drv s)) mem))"
    if a: "ol = Some l0" "ob = Some mem" "0 < st" "0 < tm"
      and sc: "fr = scripted_read" "0 < wl \<longrightarrow> fw = accepting_write"
    for l0 mem
  proof -
    have d2: "drv s2 = drv s"
      using sc(2) by (simp add: s2_def k invoked_def accepting_write_def)
    have tt: "t = (case read_loop (unat tm) scripted_read i st 0 0 mem s2 of
                     ((totalRead, mem1), s3) \<Rightarrow> ((TRUE, Some totalRead, Some mem1), s3))"
      by (simp add: t u(1) a sc(1))
    note r = read_loop_scripted [OF d2, of "unat tm" i st 0 0 mem]
    have "length (calls (snd t)) = length (calls s) + length ?W + reads_issued (unat tm) (drv s)"
      using r u(2) by (simp add: tt split_beta)
    moreover from g nc have "length (calls (snd t)) = length (calls s) + length (new_calls s (snd t))"
      by simp
    ultimately have n: "length (new_calls s (snd t))
        = (if 0 < wl then 1 else 0) + reads_issued (unat tm) (drv s)"
      by simp
    have b: "snd (snd (fst t)) = Some (overlay (delivered (unat tm) (drv s)) mem)"
      if "\<forall>r \<in> set (takeWhile read_ok (take (unat tm) (drv s))).
            length (fst (snd r)) = unat (snd (snd r))"
        and "length (delivered (unat tm) (drv s)) \<le> length mem"
      using read_loop_buffer [OF d2, of "unat tm" 0 mem i st 0] that
      by (simp add: tt split_beta)
    from r n b show ?thesis by (simp add: tt split_beta)
  qed
  from reading scripted show ?thesis by blast
qed


lemma example_script:
  "partial_total 3 [(TRUE, [1, 2, 3, 4], 4), (TRUE, [5, 6, 7, 8], 4), (0, [], 0)] = 8"
  "reads_issued 3 [(TRUE, [1, 2, 3, 4], 4), (TRUE, [5, 6, 7, 8], 4), (0, [], 0)] = 3"
  "delivered 3 [(TRUE, [1, 2, 3, 4], 4), (TRUE, [5, 6, 7, 8], 4), (0, [], 0)]
     = [1, 2, 3, 4, 5, 6, 7, 8]"
  "takeWhile read_ok [(TRUE, [1, 2, 3, 4], 4), (TRUE, [5, 6, 7, 8], 4), (0, [], 0)]
     = [(TRUE, [1, 2, 3, 4], 4), (TRUE, [5, 6, 7, 8], 4)]"
  by (simp_all add: partial_total_def reads_issued_def delivered_def read_ok_def)

theorem WriteRead_reports_partial_total_witness:
  "fst (fst (CH341WriteRead 0 2 (Some [0x9F, 0]) 4 3 (Some 0) (Some (replicate 12 0))
      (initial (installed stub_dll)
         [(TRUE, [1, 2, 3, 4], 4), (TRUE, [5, 6, 7, 8], 4), (FALSE, [], 0)]))) = TRUE
   \<and> fst (snd (fst (CH341WriteRead 0 2 (Some [0x9F, 0]) 4 3 (Some 0) (Some (replicate 12 0))
      (initial (installed stub_dll)
         [(TRUE, [1, 2, 3, 4], 4), (TRUE, [5, 6, 7, 8], 4), (FALSE, [], 0)])))) = Some 8
   \<and> snd (snd (fst (CH341WriteRead 0 2 (Some [0x9F, 0]) 4 3 (Some 0) (Some (replicate 12 0))
      (initial (installed stub_dll)
         [(TRUE, [1, 2, 3, 4], 4), (TRUE, [5, 6, 7, 8], 4), (FALSE, [], 0)]))))
       = Some ([1, 2, 3, 4, 5, 6, 7, 8] @ replicate 4 0)
   \<and> length (new_calls
        (initial (installed stub_dll)
           [(TRUE, [1, 2, 3, 4], 4), (TRUE, [5, 6, 7, 8], 4), (FALSE, [], 0)])
        (snd (CH341WriteRead 0 2 (Some [0x9F, 0]) 4 3 (Some 0) (Some (replicate 12 0))
          (initial (installed stub_dll)
             [(TRUE, [1, 2, 3, 4], 4), (TRUE, [5, 6, 7, 8], 4), (FALSE, [], 0)])))) = 4
   \<and> drv (snd (CH341WriteRead 0 2 (Some [0x9F, 0]) 4 3 (Some 0) (Some (replicate 12 0))
        (initial (installed stub_dll)
           [(TRUE, [1, 2, 3, 4], 4), (TRUE, [5, 6, 7, 8], 4), (FALSE, [], 0)]))) = []"
proof -
  let ?rs = "[(TRUE, [1, 2, 3, 4], 4), (TRUE, [5, 6, 7, 8], 4), (0, [], 0)] :: script"
  let ?s = "initial (installed stub_dll) ?rs"
  let ?t = "CH341WriteRead 0 2 (Some [0x9F, 0]) 4 3 (Some 0) (Some (replicate 12 0)) ?s"
  obtain s1 where l: "LoadCH347DLL ?s = (TRUE, s1)"
    and fw: "fp_CH347WriteData s1 = Some accepting_write"
    and fr: "fp_CH347ReadData s1 = Some scripted_read"
    by (simp add: stub_eval)
  have t: "TRUE \<noteq> 0" by simp
  have d: "drv ?s = ?rs" by (simp add: initial_def)
  have w: "(2 :: ULONG) = 0 \<or> fst (fst (accepting_write 0 (Some [0x9F, 0]) (Some 2) (drv ?s))) \<noteq> 0"
    by (simp add: accepting_write_def)
  note T = WriteRead_reports_partial_total [OF l t fw fr w refl,
      where st = 4 and tm = 3 and ol = "Some 0" and ob = "Some (replicate 12 0)"]
  from T have ok: "fst (fst ?t) = TRUE" by (rule conjunct1)
  note sc = T [THEN conjunct2, THEN conjunct2, THEN conjunct2, THEN spec, THEN spec,
      THEN mp, THEN mp, THEN mp, THEN mp, THEN mp, THEN mp, OF refl refl _ _ refl]
  have sc': "fst (snd (fst ?t)) = Some (partial_total (unat (3 :: ULONG)) (drv ?s))
      \<and> length (new_calls ?s (snd ?t))
          = (if 0 < (2 :: ULONG) then 1 else 0) + reads_issued (unat (3 :: ULONG)) (drv ?s)
      \<and> drv (snd ?t) = drop (reads_issued (unat (3 :: ULONG)) (drv ?s)) (drv ?s)
      \<and> ((\<forall>r \<in> set (takeWhile read_ok (take (unat (3 :: ULONG)) (drv ?s))).
              length (fst (snd r)) = unat (snd (snd r))) \<longrightarrow>
          length (delivered (unat (3 :: ULONG)) (drv ?s)) \<le> length (replicate 12 (0 :: UCHAR)) \<longrightarrow>
            snd (snd (fst ?t))
              = Some (overlay (delivered (unat (3 :: ULONG)) (drv ?s)) (replicate 12 0)))"
    by (rule sc) simp_all
  have u3: "unat (3 :: ULONG) = 3" by simp
  from sc' have tot: "fst (snd (fst ?t)) = Some 8"
    and cnt: "length (new_calls ?s (snd ?t)) = 4"
    and rem: "drv (snd ?t) = []"
    by (simp_all only: d u3 example_script) simp_all
  have h1: "\<forall>r \<in> set (takeWhile read_ok (take 3 ?rs)). length (fst (snd r)) = unat (snd (snd r))"
    by (simp add: read_ok_def)
  have h2: "length (delivered 3 ?rs) \<le> length (replicate 12 (0 :: UCHAR))"
    by (simp add: example_script)
  note sc'' = sc' [unfolded d u3]
  note sc'' [THEN conjunct2, THEN conjunct2, THEN conjunct2, THEN mp, THEN mp, OF h1 h2]
  then have buf: "snd (snd (fst ?t)) = Some ([1, 2, 3, 4, 5, 6, 7, 8] @ replicate 4 0)"
    by (simp add: example_script overlay_def)
  from ok tot buf cnt rem show ?thesis by (simp only: FALSE_def)
qed

end
